theory Spec2Isabelle
  imports Complex_Main "HOL-Library.AList"
begin

section \<open>Python values shared by the two scripts\<close>

text \<open>
  Exceptions are values. Each constructor stands for the Python exception class of the
  same name; \<open>RasterioIOError\<close> is what \<open>rasterio.open\<close> and \<open>read\<close> raise on a
  file they cannot decode.
\<close>

datatype py_error =
  ZeroDivisionError | ValueError | TypeError | KeyError | IndexError | OSError | RasterioIOError

text \<open>
  A float is a real number, one of the two infinities (\<open>Infty True\<close> is \<open>+inf\<close>) or
  \<open>nan\<close>. Rounding of the binary representation, the overflow of a finite result to
  \<open>inf\<close> and the sign of zero are not part of the model: arithmetic on finite values
  is exact, and a zero divisor counts as \<open>+0.0\<close>. \<open>Fin x\<close> is the float64 that the
  exact value \<open>x\<close> rounds to; it is a finite float only while \<open>x\<close> stays within
  \<open>float64_max\<close>, the largest finite float64, which is what the list \<open>peq0_passi\<close>
  below is for. The operations are those of numpy on float64 (division by zero
  gives \<open>inf\<close> or \<open>nan\<close> with a warning, the square root of a negative number gives
  \<open>nan\<close>, \<open>np.maximum\<close> propagates \<open>nan\<close>).
\<close>

datatype npfloat = Fin real | Infty bool | NaN

fun np_neg :: "npfloat \<Rightarrow> npfloat" where
  "np_neg (Fin a) = Fin (- a)"
| "np_neg (Infty s) = Infty (\<not> s)"
| "np_neg NaN = NaN"

fun np_add :: "npfloat \<Rightarrow> npfloat \<Rightarrow> npfloat" where
  "np_add (Fin a) (Fin b) = Fin (a + b)"
| "np_add (Fin a) (Infty s) = Infty s"
| "np_add (Infty s) (Fin b) = Infty s"
| "np_add (Infty s) (Infty t) = (if s = t then Infty s else NaN)"
| "np_add NaN y = NaN"
| "np_add x NaN = NaN"


definition np_sub :: "npfloat \<Rightarrow> npfloat \<Rightarrow> npfloat" where
  "np_sub x y = np_add x (np_neg y)"

fun np_mul :: "npfloat \<Rightarrow> npfloat \<Rightarrow> npfloat" where
  "np_mul (Fin a) (Fin b) = Fin (a * b)"
| "np_mul (Fin a) (Infty s) = (if a = 0 then NaN else Infty (s = (0 < a)))"
| "np_mul (Infty s) (Fin b) = (if b = 0 then NaN else Infty (s = (0 < b)))"
| "np_mul (Infty s) (Infty t) = Infty (s = t)"
| "np_mul NaN y = NaN"
| "np_mul x NaN = NaN"

fun np_div :: "npfloat \<Rightarrow> npfloat \<Rightarrow> npfloat" where
  "np_div (Fin a) (Fin b) =
     (if b \<noteq> 0 then Fin (a / b) else if a = 0 then NaN else Infty (0 < a))"
| "np_div (Fin a) (Infty s) = Fin 0"
| "np_div (Infty s) (Fin b) = Infty (s = (0 \<le> b))"
| "np_div (Infty s) (Infty t) = NaN"
| "np_div NaN y = NaN"
| "np_div x NaN = NaN"

fun np_sqrt :: "npfloat \<Rightarrow> npfloat" where
  "np_sqrt (Fin a) = (if a < 0 then NaN else Fin (sqrt a))"
| "np_sqrt (Infty s) = (if s then Infty True else NaN)"
| "np_sqrt NaN = NaN"

fun np_maximum :: "npfloat \<Rightarrow> npfloat \<Rightarrow> npfloat" where
  "np_maximum (Fin a) (Fin b) = Fin (max a b)"
| "np_maximum (Fin a) (Infty s) = (if s then Infty True else Fin a)"
| "np_maximum (Infty s) (Fin b) = (if s then Infty True else Fin b)"
| "np_maximum (Infty s) (Infty t) = Infty (s \<or> t)"
| "np_maximum NaN y = NaN"
| "np_maximum x NaN = NaN"

text \<open>\<open>np.rint\<close>: the nearest integer, a tie going to the even neighbour.\<close>

definition rint :: "real \<Rightarrow> int" where
  "rint x =
     (let f = \<lfloor>x\<rfloor>; d = x - of_int f
      in if d < 1 / 2 then f else if 1 / 2 < d then f + 1 else if even f then f else f + 1)"

text \<open>\<open>np.round(x, decimals)\<close> and \<open>DataFrame.round(decimals)\<close> on one value.\<close>

fun np_round :: "nat \<Rightarrow> npfloat \<Rightarrow> npfloat" where
  "np_round decimals (Fin a) = Fin (of_int (rint (a * 10 ^ decimals)) / 10 ^ decimals)"
| "np_round decimals (Infty s) = Infty s"
| "np_round decimals NaN = NaN"

subsection \<open>Strings\<close>

text \<open>
  Strings are lists of ASCII characters; the Unicode digits, letters and spaces that
  Python's \<open>\d\<close>, \<open>upper\<close> and \<open>strip\<close> also know are outside the model.
\<close>

definition is_digit :: "char \<Rightarrow> bool" where
  "is_digit c = (48 \<le> (of_char c :: nat) \<and> (of_char c :: nat) \<le> 57)"

definition digit_val :: "char \<Rightarrow> nat" where
  "digit_val c = of_char c - 48"

text \<open>\<open>int(ds)\<close> on a string of decimal digits.\<close>

definition int_of_digits :: "string \<Rightarrow> nat" where
  "int_of_digits ds = foldl (\<lambda>a c. 10 * a + digit_val c) 0 ds"

definition digit_char :: "nat \<Rightarrow> char" where
  "digit_char n = ''0123456789'' ! (n mod 10)"

text \<open>
  The format \<open>{n:02d}\<close> for \<open>n < 100\<close>, the only values it is applied to: every
  argument is the value of one or two matched digits, or an integer strictly between 0
  and 100.
\<close>

definition fmt02d :: "nat \<Rightarrow> string" where
  "fmt02d n = [digit_char (n div 10), digit_char n]"

definition is_space :: "char \<Rightarrow> bool" where
  "is_space c =
     (c = CHR '' '' \<or> (9 \<le> (of_char c :: nat) \<and> (of_char c :: nat) \<le> 13)
        \<or> (28 \<le> (of_char c :: nat) \<and> (of_char c :: nat) \<le> 31))"

definition py_strip :: "string \<Rightarrow> string" where
  "py_strip s = rev (dropWhile is_space (rev (dropWhile is_space s)))"

definition py_upper :: "string \<Rightarrow> string" where
  "py_upper s =
     map (\<lambda>c. case map_of (zip ''abcdefghijklmnopqrstuvwxyz'' ''ABCDEFGHIJKLMNOPQRSTUVWXYZ'') c of
               None \<Rightarrow> c | Some u \<Rightarrow> u) s"

text \<open>\<open>s[i:j]\<close> for \<open>0 \<le> i \<le> j\<close>: a slice never raises.\<close>

definition slice :: "nat \<Rightarrow> nat \<Rightarrow> 'a list \<Rightarrow> 'a list" where
  "slice i j s = take (j - i) (drop i s)"

section \<open>Peq0\_Automatized.py\<close>

subsection \<open>\<open>calcola_peq0\<close>\<close>

text \<open>
  The local \<open>s = 25400 / cn - 254\<close>. In \<open>process_sheet\<close> the curve number is a Python
  float, so a zero \<open>cn\<close> raises \<open>ZeroDivisionError\<close>; the other operations never raise.
\<close>

definition peq0_s :: "npfloat \<Rightarrow> py_error + npfloat" where
  "peq0_s cn =
     (if cn = Fin 0 then Inl ZeroDivisionError
      else Inr (np_sub (np_div (Fin 25400) cn) (Fin 254)))"

text \<open>The local \<open>sqrt_term = s * (p5 + ((1 - lam) / 2) ** 2 * s)\<close>, the radicand.\<close>

definition sqrt_term :: "npfloat \<Rightarrow> npfloat \<Rightarrow> npfloat \<Rightarrow> npfloat" where
  "sqrt_term s p5 lam =
     np_mul s
       (np_add p5
          (np_mul (let h = np_div (np_sub (Fin 1) lam) (Fin 2) in np_mul h h) s))"

text \<open>
  \<open>calcola_peq0(p5, cn, lam)\<close> on one precipitation value. \<open>LAMBDA\<close> is
  \<open>config.LAMBDA\<close>, used when the argument \<open>lam\<close> is \<open>None\<close>.
\<close>

definition calcola_peq0 ::
  "npfloat \<Rightarrow> npfloat \<Rightarrow> npfloat \<Rightarrow> npfloat option \<Rightarrow> py_error + npfloat" where
  "calcola_peq0 LAMBDA p5 cn lam_arg =
     (let lam = (case lam_arg of None \<Rightarrow> LAMBDA | Some l \<Rightarrow> l) in
      case peq0_s cn of
        Inl e \<Rightarrow> Inl e
      | Inr s \<Rightarrow>
          (let m = np_maximum
                     (np_sub (np_sqrt (sqrt_term s p5 lam))
                             (np_mul (np_div (np_add (Fin 1) lam) (Fin 2)) s))
                     (Fin 0)
           in Inr (np_mul m (np_add (Fin 1) (np_div (np_mul lam s) (np_add s m))))))"



subsection \<open>\<open>calcola_cn_per_zone\<close>\<close>

text \<open>
  A Python dict is an association list with distinct keys in insertion order;
  \<open>d[k] = v\<close> is \<open>AList.update k v d\<close> and \<open>d.get(k)\<close> is \<open>map_of d k\<close>.

  The cache file holds \<open>{"zone_cn": ..., "mtimes": ...}\<close>. \<open>json.dumps\<close> followed by
  \<open>json.loads\<close> gives back the same dicts of floats, so a readable cache is modelled
  by the data it holds. \<open>Damaged\<close> is a file on which the \<open>try\<close> block raises whatever
  the modification times are: text that is not JSON, a missing field, a value that
  \<open>float\<close> rejects.
\<close>

record cache_data =
  zone_cn :: "(string \<times> npfloat) list"
  mtimes :: "(string \<times> real) list"

datatype cache_content = Absent | Damaged | Parsed cache_data

text \<open>
  The part of the file system the function touches. \<open>glob_asc\<close> is the value of
  \<open>sorted(folder.glob("*.ASC"))\<close> as path strings; \<open>getmtime p\<close> is \<open>None\<close> where
  \<open>os.path.getmtime(p)\<close> raises; \<open>asc_band p\<close> is the masked array that
  \<open>rasterio.open(p).read(1, masked=True)\<close> returns, a masked cell being \<open>None\<close>, and
  is \<open>None\<close> where opening or reading raises. \<open>opened\<close> logs every raster the function
  opens, in order.
\<close>

record cn_files =
  glob_asc :: "string list"
  getmtime :: "string \<rightharpoonup> real"
  asc_band :: "string \<rightharpoonup> real option list"
  cache_file :: cache_content
  opened :: "string list"

text \<open>\<open>Path.stem\<close>: the last path component without its last suffix.\<close>

definition path_name :: "string \<Rightarrow> string" where
  "path_name p = rev (takeWhile (\<lambda>c. c \<noteq> CHR ''/'') (rev p))"

definition path_stem :: "string \<Rightarrow> string" where
  "path_stem p =
     (let name = path_name p;
          after = takeWhile (\<lambda>c. c \<noteq> CHR ''.'') (rev name);
          i = length name - length after - 1
      in if length after < length name \<and> 0 < i \<and> after \<noteq> [] then take i name else name)"

text \<open>
  \<open>re.search(r"(\d{1,2})$", stem)\<close>: the last two digits when the stem ends in two or
  more digits, the last digit when it ends in exactly one; \<open>$\<close> also matches before a
  final newline. The result is \<open>m.group()\<close>.
\<close>

definition trailing_digits :: "string \<Rightarrow> string option" where
  "trailing_digits stem =
     (let t = (if stem \<noteq> [] \<and> last stem = CHR 0x0A then butlast stem else stem);
          ds = rev (takeWhile is_digit (rev t))
      in if ds = [] then None else Some (drop (length ds - 2) ds))"

definition zone_key :: "nat \<Rightarrow> string" where
  "zone_key n = ''IM-'' @ fmt02d n"

text \<open>\<open>float(np.ma.mean(band))\<close>: the mean of the cells that are not masked, \<open>nan\<close> when all are.\<close>

definition masked_mean :: "real option list \<Rightarrow> npfloat" where
  "masked_mean band =
     (let valid = List.map_filter id band
      in if valid = [] then NaN else Fin (sum_list valid / real (length valid)))"

text \<open>
  The loop over the rasters. The accumulator holds the locals \<open>zone_cn\<close> and \<open>mtimes\<close>
  and the log of opened rasters. An exception of \<open>rasterio.open\<close> or
  \<open>os.path.getmtime\<close> is not caught and ends the function.
\<close>

fun cn_loop ::
  "cn_files \<Rightarrow> string list \<Rightarrow> (string \<times> npfloat) list \<times> (string \<times> real) list \<times> string list \<Rightarrow>
   py_error + ((string \<times> npfloat) list \<times> (string \<times> real) list \<times> string list)" where
  "cn_loop fs [] acc = Inr acc"
| "cn_loop fs (asc # rest) (zcn, mts, ops) =
     (case trailing_digits (path_stem asc) of
        None \<Rightarrow> cn_loop fs rest (zcn, mts, ops)
      | Some ds \<Rightarrow>
          (case asc_band fs asc of
             None \<Rightarrow> Inl RasterioIOError
           | Some band \<Rightarrow>
               (case getmtime fs asc of
                  None \<Rightarrow> Inl OSError
                | Some t \<Rightarrow>
                    cn_loop fs rest
                      (AList.update (zone_key (int_of_digits ds)) (masked_mean band) zcn,
                       AList.update asc t mts,
                       ops @ [asc]))))"

text \<open>
  The \<open>try\<close> block at the top: the cached averages when the cache is readable and
  \<open>all(os.path.getmtime(p) == data["mtimes"].get(p) for p in data["mtimes"])\<close>.
  A recorded path whose \<open>getmtime\<close> raises lands in the \<open>except\<close> branch; like a
  mismatch, it leads to the recomputation.
\<close>

definition cache_lookup :: "cn_files \<Rightarrow> (string \<times> npfloat) list option" where
  "cache_lookup fs =
     (case cache_file fs of
        Parsed data \<Rightarrow>
          if list_all (\<lambda>p. getmtime fs p = map_of (mtimes data) p) (map fst (mtimes data))
          then Some (zone_cn data) else None
      | _ \<Rightarrow> None)"

text \<open>\<open>calcola_cn_per_zone(folder, cache)\<close>: the returned dict and the files afterwards.\<close>

definition calcola_cn_per_zone ::
  "cn_files \<Rightarrow> py_error + ((string \<times> npfloat) list \<times> cn_files)" where
  "calcola_cn_per_zone fs =
     (case cache_lookup fs of
        Some cached \<Rightarrow> Inr (cached, fs)
      | None \<Rightarrow>
          (case cn_loop fs (glob_asc fs) ([], [], opened fs) of
             Inl e \<Rightarrow> Inl e
           | Inr (zcn, mts, ops) \<Rightarrow>
               Inr (zcn, fs\<lparr>cache_file := Parsed \<lparr>zone_cn = zcn, mtimes = mts\<rparr>, opened := ops\<rparr>)))"

subsection \<open>\<open>normalizza_zona\<close> and \<open>process_sheet\<close>\<close>

text \<open>
  A cell of a sheet: \<open>None\<close>, a number (an empty Excel cell is \<open>nan\<close>) or a string.
\<close>

datatype cell = CNone | CFloat npfloat | CStr string

text \<open>\<open>re.fullmatch(r"IM\d{1,2}", z)\<close> and \<open>re.fullmatch(r"IM-\d{1,2}", z)\<close>.\<close>

definition match_IM :: "string \<Rightarrow> bool" where
  "match_IM z =
     (take 2 z = ''IM'' \<and> length (drop 2 z) \<in> {1, 2} \<and> list_all is_digit (drop 2 z))"

definition match_IM_dash :: "string \<Rightarrow> bool" where
  "match_IM_dash z =
     (take 3 z = ''IM-'' \<and> length (drop 3 z) \<in> {1, 2} \<and> list_all is_digit (drop 3 z))"

text \<open>The part of \<open>normalizza_zona\<close> after the numeric attempt.\<close>

definition normalizza_str :: "string \<Rightarrow> string option" where
  "normalizza_str z =
     (let z_str = filter (\<lambda>c. c \<noteq> CHR '' '') (py_upper (py_strip z))
      in if match_IM z_str then Some (zone_key (int_of_digits (drop 2 z_str)))
         else if match_IM_dash z_str then Some (zone_key (int_of_digits (drop 3 z_str)))
         else None)"

text \<open>
  \<open>normalizza_zona(z)\<close>. \<open>py_float\<close> is Python's \<open>float\<close> on a string, \<open>None\<close> where it
  raises. A number that is not an integer strictly between 0 and 100 goes on to the
  string patterns, which \<open>str\<close> of a number or of \<open>None\<close> never matches.
\<close>

definition numeric_key :: "npfloat \<Rightarrow> string option" where
  "numeric_key num =
     (case num of
        Fin x \<Rightarrow> if x = of_int \<lfloor>x\<rfloor> \<and> 0 < x \<and> x < 100 then Some (zone_key (nat \<lfloor>x\<rfloor>)) else None
      | _ \<Rightarrow> None)"

fun normalizza_zona :: "(string \<Rightarrow> npfloat option) \<Rightarrow> cell \<Rightarrow> string option" where
  "normalizza_zona py_float CNone = None"
| "normalizza_zona py_float (CFloat num) = numeric_key num"
| "normalizza_zona py_float (CStr z) =
     (case (case py_float z of None \<Rightarrow> None | Some num \<Rightarrow> numeric_key num) of
        Some key \<Rightarrow> Some key
      | None \<Rightarrow> normalizza_str z)"

text \<open>\<open>row[val_cols].to_numpy(dtype=float)\<close>: a string that is not a number raises.\<close>

fun to_numpy_float :: "(string \<Rightarrow> npfloat option) \<Rightarrow> cell list \<Rightarrow> py_error + npfloat list" where
  "to_numpy_float py_float [] = Inr []"
| "to_numpy_float py_float (c # cs) =
     (case (case c of CNone \<Rightarrow> Some NaN | CFloat v \<Rightarrow> Some v | CStr s \<Rightarrow> py_float s) of
        None \<Rightarrow> Inl ValueError
      | Some v \<Rightarrow>
          (case to_numpy_float py_float cs of Inl e \<Rightarrow> Inl e | Inr vs \<Rightarrow> Inr (v # vs)))"

text \<open>\<open>np.round(calcola_peq0(p5, cn), 2)\<close> over the array \<open>p5\<close>.\<close>

definition peq0_row :: "npfloat \<Rightarrow> npfloat \<Rightarrow> npfloat list \<Rightarrow> py_error + cell list" where
  "peq0_row LAMBDA cn p5 =
     (case peq0_s cn of
        Inl e \<Rightarrow> Inl e
      | Inr s \<Rightarrow>
          Inr (map (\<lambda>p. CFloat (np_round 2 (case calcola_peq0 LAMBDA p cn None of
                                                Inr v \<Rightarrow> v | Inl e \<Rightarrow> NaN))) p5))"

text \<open>
  A row of the sheet is the cell of the first column and the cells of the other
  columns; a sheet has at least one column (on a frame without columns
  \<open>out.columns[0]\<close> raises) and its rows carry distinct index labels, as every
  parsed sheet does. The body of the loop of \<open>process_sheet\<close> on one row: the row as
  it stands in \<open>out\<close> afterwards, or the exception that ends the function.
\<close>

type_synonym row = "cell \<times> cell list"

definition process_row ::
  "(string \<Rightarrow> npfloat option) \<Rightarrow> npfloat \<Rightarrow> (string \<times> npfloat) list \<Rightarrow> row \<Rightarrow> py_error + row" where
  "process_row py_float LAMBDA zcn r =
     (case normalizza_zona py_float (fst r) of
        None \<Rightarrow> Inr r
      | Some key \<Rightarrow>
          (case map_of zcn key of
             None \<Rightarrow> Inr r
           | Some cn \<Rightarrow>
               (case to_numpy_float py_float (snd r) of
                  Inl e \<Rightarrow> Inl e
                | Inr p5 \<Rightarrow>
                    (case peq0_row LAMBDA cn p5 of
                       Inl e \<Rightarrow> Inl e
                     | Inr vals \<Rightarrow> Inr (fst r, vals)))))"

fun process_sheet ::
  "(string \<Rightarrow> npfloat option) \<Rightarrow> npfloat \<Rightarrow> (string \<times> npfloat) list \<Rightarrow> row list \<Rightarrow>
   py_error + row list" where
  "process_sheet py_float LAMBDA zcn [] = Inr []"
| "process_sheet py_float LAMBDA zcn (r # rs) =
     (case process_row py_float LAMBDA zcn r of
        Inl e \<Rightarrow> Inl e
      | Inr r' \<Rightarrow>
          (case process_sheet py_float LAMBDA zcn rs of
             Inl e \<Rightarrow> Inl e
           | Inr rs' \<Rightarrow> Inr (r' # rs')))"

section \<open>MCMOL\_cumulate\_fixed.py\<close>

subsection \<open>Time, configuration and the archive\<close>

text \<open>
  A \<open>datetime\<close> is its number of microseconds on the proleptic Gregorian time line
  (naive, no time zone); \<open>timedelta(hours=h)\<close> is \<open>h\<close> hours of microseconds. The
  \<open>OverflowError\<close> of dates before year 1 or after year 9999 is not modelled.
\<close>

type_synonym datetime = int

definition timedelta_hours :: "int \<Rightarrow> int" where
  "timedelta_hours h = h * 3600000000"

text \<open>
  The library calls on dates enter as parameters: \<open>strftime_Y t\<close> is
  \<open>t.strftime('%Y')\<close>, likewise \<open>'%m'\<close>, \<open>'%d'\<close> and \<open>'%Y%m%d%H'\<close>, and
  \<open>strptime_Ymd_H s\<close> is \<open>datetime.strptime(s, "%Y%m%d %H")\<close>, \<open>None\<close> where it raises
  \<open>ValueError\<close>.
\<close>

record calendar =
  strftime_Y :: "datetime \<Rightarrow> string"
  strftime_m :: "datetime \<Rightarrow> string"
  strftime_d :: "datetime \<Rightarrow> string"
  strftime_YmdH :: "datetime \<Rightarrow> string"
  strptime_Ymd_H :: "string \<Rightarrow> datetime option"

text \<open>The fields of \<open>Config\<close> that the modelled functions read from \<open>config.ini\<close>.\<close>

record config =
  RADICE_ARCHIVIO :: string
  ORE_CONTROLLO_ARCHIVIO :: int
  ORE_ESCLUSE_RECENTI :: int
  PERCENTILI :: "int list"

definition PREFISSO_FILE :: string where
  "PREFISSO_FILE = ''MCM_''"

definition MINUTO_CORRENTE :: string where
  "MINUTO_CORRENTE = ''0000''"

text \<open>
  A raster band is a list of rows of equal length. Its cells are numbers of the
  dtype of the file, and \<open>a + b\<close> on two numpy arrays adds cell by cell with the
  addition of that dtype, not with the addition of the integers or the reals: the sum
  of two integers wraps around at the width of the dtype, without an exception, and
  the sum of two floats is rounded. This addition on cells is the parameter \<open>piu\<close> of
  \<open>grid_add\<close> and of the functions built on it; \<open>piu_int16\<close> is the one of the dtype
  \<open>int16\<close>. \<open>a + b\<close> broadcasts a dimension of length 1 and raises \<open>ValueError\<close> when
  the shapes do not fit.
\<close>

type_synonym 'a grid = "'a list list"

definition piu_int16 :: "int \<Rightarrow> int \<Rightarrow> int" where
  "piu_int16 x y = (x + y + 32768) mod 65536 - 32768"

definition grid_width :: "'a grid \<Rightarrow> nat" where
  "grid_width g = (case g of [] \<Rightarrow> 0 | r # _ \<Rightarrow> length r)"

definition grid_size :: "'a grid \<Rightarrow> nat" where
  "grid_size g = length g * grid_width g"

definition broadcast_dim :: "nat \<Rightarrow> nat \<Rightarrow> nat option" where
  "broadcast_dim a b =
     (if a = b then Some a else if a = 1 then Some b else if b = 1 then Some a else None)"

definition grid_at :: "'a grid \<Rightarrow> nat \<Rightarrow> nat \<Rightarrow> 'a" where
  "grid_at g i j = g ! (if length g = 1 then 0 else i) ! (if grid_width g = 1 then 0 else j)"

definition grid_add :: "('a \<Rightarrow> 'a \<Rightarrow> 'a) \<Rightarrow> 'a grid \<Rightarrow> 'a grid \<Rightarrow> 'a grid option" where
  "grid_add piu a b =
     (case (broadcast_dim (length a) (length b), broadcast_dim (grid_width a) (grid_width b)) of
        (Some h, Some w) \<Rightarrow>
          Some (map (\<lambda>i. map (\<lambda>j. piu (grid_at a i j) (grid_at b i j)) [0..<w]) [0..<h])
      | _ \<Rightarrow> None)"

text \<open>
  An hourly file of the archive, by what each call of the script observes on it:
  \<open>st_size\<close> is \<open>os.path.getsize\<close>; \<open>tiff_ok\<close> tells whether opening it for reading and
  reading the sample window succeed (\<open>verifica_file_tiff\<close>); \<open>update_ok\<close> whether
  \<open>rasterio.open(path, 'r+')\<close> and the assignment of the reference system succeed;
  \<open>band1\<close> is the array that \<open>read(1)\<close> returns, \<open>None\<close> where the full read raises;
  \<open>crs\<close> is the EPSG code stored in the file, if any. The type \<open>'a\<close> is that of the
  cells.
\<close>

record 'a raster_file =
  st_size :: nat
  tiff_ok :: bool
  update_ok :: bool
  band1 :: "'a grid option"
  crs :: "nat option"

text \<open>
  The archive on disk: the regular file at each path, and \<open>os.listdir\<close> of each
  directory (\<open>None\<close> where it raises).
\<close>

record 'a archive =
  files :: "string \<rightharpoonup> 'a raster_file"
  listdir :: "string \<rightharpoonup> string list"

text \<open>\<open>os.path.join(a, *p)\<close> with the separator \<open>/\<close>.\<close>

fun os_path_join :: "string \<Rightarrow> string list \<Rightarrow> string" where
  "os_path_join a [] = a"
| "os_path_join a (b # bs) =
     os_path_join
       (if b \<noteq> [] \<and> hd b = CHR ''/'' then b
        else if a = [] \<or> last a = CHR ''/'' then a @ b
        else a @ ''/'' @ b) bs"

definition verifica_file_tiff :: "'a archive \<Rightarrow> string \<Rightarrow> bool" where
  "verifica_file_tiff fs file_path =
     (case files fs file_path of None \<Rightarrow> False | Some f \<Rightarrow> tiff_ok f)"

definition costruisci_path_file :: "config \<Rightarrow> calendar \<Rightarrow> datetime \<Rightarrow> string \<Rightarrow> string" where
  "costruisci_path_file cfg cal ora nome_file =
     os_path_join (RADICE_ARCHIVIO cfg)
       [strftime_Y cal ora, strftime_m cal ora, strftime_d cal ora, nome_file]"

text \<open>The file name built in both loops from the prefix, the hour and the minute suffix.\<close>

definition nome_file_ora :: "calendar \<Rightarrow> datetime \<Rightarrow> string" where
  "nome_file_ora cal ora = PREFISSO_FILE @ strftime_YmdH cal ora @ MINUTO_CORRENTE @ ''.tif''"

text \<open>
  The chain \<open>isfile\<close> / \<open>getsize == 0\<close> / \<open>verifica_file_tiff\<close> that both
  \<open>controlla_file_archivio_completo\<close> and \<open>calcolo_cumulata\<close> run on a path.
\<close>

datatype stato_file = Mancante | Vuoto | Corrotto | Valido

definition classifica_file :: "'a archive \<Rightarrow> string \<Rightarrow> stato_file" where
  "classifica_file fs path =
     (case files fs path of
        None \<Rightarrow> Mancante
      | Some f \<Rightarrow>
          if st_size f = 0 then Vuoto
          else if \<not> verifica_file_tiff fs path then Corrotto
          else Valido)"

subsection \<open>\<open>controlla_file_archivio_completo\<close>\<close>






subsection \<open>\<open>calcolo_cumulata\<close>\<close>

text \<open>
  The anchor: the last entry of today's directory, cut at fixed columns. A failure of
  \<open>os.listdir\<close> and an empty listing are caught (\<open>Inl None\<close>: the function returns
  \<open>(False, [])\<close>); \<open>strptime\<close> stands after the \<open>try\<close>, so its \<open>ValueError\<close> leaves
  the function (\<open>Inl (Some ValueError)\<close>).
\<close>

definition path_oggi :: "config \<Rightarrow> calendar \<Rightarrow> datetime \<Rightarrow> string" where
  "path_oggi cfg cal current_dateTime =
     os_path_join (RADICE_ARCHIVIO cfg)
       [strftime_Y cal current_dateTime, strftime_m cal current_dateTime,
        strftime_d cal current_dateTime]"

text \<open>The string \<open>f"{anno}{mese}{giorno} {ora}"\<close> cut from the name \<open>ultimo_file\<close>.\<close>

definition data_ora_di :: "string \<Rightarrow> string" where
  "data_ora_di ultimo_file =
     (let anno = slice 4 8 ultimo_file;
          mese = slice 8 10 ultimo_file;
          giorno = slice 10 12 ultimo_file;
          ora = slice 12 14 ultimo_file
      in anno @ mese @ giorno @ '' '' @ ora)"

definition ora_ultimo_file ::
  "config \<Rightarrow> calendar \<Rightarrow> 'a archive \<Rightarrow> datetime \<Rightarrow> py_error option + datetime" where
  "ora_ultimo_file cfg cal fs current_dateTime =
     (case listdir fs (path_oggi cfg cal current_dateTime) of
        None \<Rightarrow> Inl None
      | Some dir_list \<Rightarrow>
          if dir_list = [] then Inl None
          else
            (case strptime_Ymd_H cal (data_ora_di (last dir_list)) of
               None \<Rightarrow> Inl (Some ValueError)
             | Some t \<Rightarrow> Inr t))"

text \<open>\<open>lista_date\<close>: the hours after \<open>ora_primo_file\<close> up to the anchor.\<close>

definition lista_date :: "datetime \<Rightarrow> int \<Rightarrow> datetime list" where
  "lista_date ora_ultimo durata_cumulata =
     map (\<lambda>i. (ora_ultimo - timedelta_hours durata_cumulata) + timedelta_hours (int i + 1))
         [0..<nat durata_cumulata]"

text \<open>The collection loop; the accumulator is \<open>(lista_file, file_problematici)\<close>.\<close>

fun raccogli_file ::
  "config \<Rightarrow> calendar \<Rightarrow> 'a archive \<Rightarrow> datetime list \<Rightarrow> string list \<times> string list \<Rightarrow>
   string list \<times> string list" where
  "raccogli_file cfg cal fs [] acc = acc"
| "raccogli_file cfg cal fs (date # rest) (lista_file, file_problematici) =
     (let nome_file = nome_file_ora cal date;
          file_completo = costruisci_path_file cfg cal date nome_file
      in raccogli_file cfg cal fs rest
           (case classifica_file fs file_completo of
              Mancante \<Rightarrow> (lista_file, file_problematici @ [nome_file @ '' (missing)''])
            | Vuoto \<Rightarrow> (lista_file, file_problematici @ [nome_file @ '' (empty)''])
            | Corrotto \<Rightarrow> (lista_file, file_problematici @ [nome_file @ '' (corrupted)''])
            | Valido \<Rightarrow> (lista_file @ [file_completo], file_problematici)))"

text \<open>
  The loop \<open>for i in range(1, len(lista_file))\<close>: the running \<open>data\<close> and
  \<open>files_sommati\<close>. Every exception inside its \<open>try\<close> (the file does not open, the
  read fails, the shapes do not add) skips the file.
\<close>

fun somma_file ::
  "('a \<Rightarrow> 'a \<Rightarrow> 'a) \<Rightarrow> 'a archive \<Rightarrow> string list \<Rightarrow> 'a grid \<times> nat \<Rightarrow> 'a grid \<times> nat" where
  "somma_file piu fs [] acc = acc"
| "somma_file piu fs (p # rest) (data, files_sommati) =
     somma_file piu fs rest
       (case files fs p of
          None \<Rightarrow> (data, files_sommati)
        | Some f \<Rightarrow>
            (case band1 f of
               None \<Rightarrow> (data, files_sommati)
             | Some data_temp \<Rightarrow>
                 (case grid_add piu data data_temp of
                    None \<Rightarrow> (data, files_sommati)
                  | Some somma \<Rightarrow> (somma, files_sommati + 1))))"

text \<open>
  What \<open>calcolo_cumulata\<close> leaves behind: \<open>ritorno\<close> is the returned pair
  \<open>(success, file_problematici)\<close> or the exception that leaves the function;
  \<open>data_sommata\<close> is the array \<open>data\<close> after the summing loop, the content written to
  \<open>merge_ITALY.tif\<close>, when the function gets that far; \<open>archivio_dopo\<close> is the archive
  afterwards.
\<close>

record 'a esito_cumulata =
  ritorno :: "py_error + (bool \<times> string list)"
  data_sommata :: "'a grid option"
  archivio_dopo :: "'a archive"

text \<open>
  Opening the first file with mode \<open>'r+'\<close> and assigning \<open>src.crs\<close> makes the
  library write that file anew when the dataset is closed, at the end of the \<open>with\<close>
  block. What this does to the file besides the reference system is the library's
  doing and not written in the script: the size of the file changes, and what the
  next open and the next read find in it may change with it. \<open>riscritto f\<close> is the
  file \<open>f\<close> as the library leaves it; the reference system it then stores is
  EPSG:4326.
\<close>

definition stamp_crs ::
  "('a raster_file \<Rightarrow> 'a raster_file) \<Rightarrow> 'a archive \<Rightarrow> string \<Rightarrow> 'a raster_file \<Rightarrow> 'a archive" where
  "stamp_crs riscritto fs p f =
     fs\<lparr>files := (files fs)(p \<mapsto> (riscritto f)\<lparr>crs := Some 4326\<rparr>)\<rparr>"

text \<open>
  \<open>calcolo_cumulata(durata_cumulata)\<close>. \<open>current_dateTime\<close> is \<open>datetime.now()\<close>;
  \<open>piu\<close> and \<open>riscritto\<close> are the two library behaviours described above.
  \<open>post_somma data\<close> stands for the steps after the sum, which belong to the clipping,
  map and percentile collaborators: \<open>Inr True\<close> when they complete, \<open>Inr False\<close> when
  one of their checks makes the function return \<open>False\<close>, \<open>Inl e\<close> when one raises.
\<close>

definition calcolo_cumulata ::
  "config \<Rightarrow> calendar \<Rightarrow> ('a \<Rightarrow> 'a \<Rightarrow> 'a) \<Rightarrow> ('a raster_file \<Rightarrow> 'a raster_file) \<Rightarrow>
   ('a grid \<Rightarrow> py_error + bool) \<Rightarrow> 'a archive \<Rightarrow> datetime \<Rightarrow> int \<Rightarrow> 'a esito_cumulata" where
  "calcolo_cumulata cfg cal piu riscritto post_somma fs current_dateTime durata_cumulata =
     (case ora_ultimo_file cfg cal fs current_dateTime of
        Inl None \<Rightarrow> \<lparr>ritorno = Inr (False, []), data_sommata = None, archivio_dopo = fs\<rparr>
      | Inl (Some e) \<Rightarrow> \<lparr>ritorno = Inl e, data_sommata = None, archivio_dopo = fs\<rparr>
      | Inr ora_ultimo \<Rightarrow>
          (case raccogli_file cfg cal fs (lista_date ora_ultimo durata_cumulata) ([], []) of
             (lista_file, file_problematici) \<Rightarrow>
               if length lista_file = 0
               then \<lparr>ritorno = Inr (False, file_problematici), data_sommata = None,
                      archivio_dopo = fs\<rparr>
               else
                 (case files fs (hd lista_file) of
                    None \<Rightarrow> \<lparr>ritorno = Inr (False, file_problematici), data_sommata = None,
                              archivio_dopo = fs\<rparr>
                  | Some f \<Rightarrow>
                      if \<not> update_ok f
                      then \<lparr>ritorno = Inr (False, file_problematici), data_sommata = None,
                             archivio_dopo = fs\<rparr>
                      else
                        (let fs' = stamp_crs riscritto fs (hd lista_file) f in
                         case band1 f of
                           None \<Rightarrow> \<lparr>ritorno = Inr (False, file_problematici),
                                     data_sommata = None, archivio_dopo = fs'\<rparr>
                         | Some data0 \<Rightarrow>
                             (let data = fst (somma_file piu fs' (tl lista_file) (data0, 1)) in
                              if grid_size data = 0
                              then \<lparr>ritorno = Inr (False, file_problematici),
                                     data_sommata = Some data, archivio_dopo = fs'\<rparr>
                              else
                                (case post_somma data of
                                   Inl e \<Rightarrow> \<lparr>ritorno = Inl e, data_sommata = Some data,
                                             archivio_dopo = fs'\<rparr>
                                 | Inr ok \<Rightarrow> \<lparr>ritorno = Inr (ok, file_problematici),
                                              data_sommata = Some data,
                                              archivio_dopo = fs'\<rparr>))))))"

text \<open>The reason the collection loop appends to the name of a file it does not accept.\<close>

definition suffisso_problema :: "stato_file \<Rightarrow> string" where
  "suffisso_problema st =
     (case st of Mancante \<Rightarrow> '' (missing)'' | Vuoto \<Rightarrow> '' (empty)''
      | Corrotto \<Rightarrow> '' (corrupted)'' | Valido \<Rightarrow> [])"

text \<open>\<open>forma h w g\<close>: the array \<open>g\<close> has shape \<open>(h, w)\<close>.\<close>

definition forma :: "nat \<Rightarrow> nat \<Rightarrow> 'a grid \<Rightarrow> bool" where
  "forma h w g = (length g = h \<and> list_all (\<lambda>r. length r = w) g)"

text \<open>
  The cell that the summing loop computes from the cell \<open>x\<close> of the first layer and
  the cells \<open>xs\<close> of the layers added to it, in the order of the loop; and the case
  in which every one of these additions is the exact one, none wrapping around and
  none being rounded.
\<close>

definition somma_celle :: "('a \<Rightarrow> 'a \<Rightarrow> 'a) \<Rightarrow> 'a \<Rightarrow> 'a list \<Rightarrow> 'a" where
  "somma_celle piu x xs = foldl piu x xs"

fun somme_esatte :: "('a::monoid_add \<Rightarrow> 'a \<Rightarrow> 'a) \<Rightarrow> 'a \<Rightarrow> 'a list \<Rightarrow> bool" where
  "somme_esatte piu acc [] = True"
| "somme_esatte piu acc (x # xs) = (piu acc x = acc + x \<and> somme_esatte piu (piu acc x) xs)"

subsection \<open>\<open>calcolo_percentili\<close>\<close>

text \<open>
  An attribute value of the polygon layer: a number, or anything to which \<open>+= 1\<close>
  does not apply.
\<close>

datatype attr = ANum npfloat | AStr string

text \<open>
  A row of the layer. \<open>attr_id\<close> is the value of its \<open>'id'\<close> field, \<open>None\<close> when the
  layer has no such field. \<open>celle_valide\<close> is what the mask yields for its geometry:
  the cells it touches that differ from the nodata value, \<open>None\<close> when \<open>mask\<close> raises.
\<close>

record zona =
  attr_id :: "attr option"
  celle_valide :: "real list option"

text \<open>
  What the function finds: whether the two paths are files, the layer that
  \<open>gpd.read_file\<close> returns (\<open>None\<close> when it raises) and whether the raster opens.
\<close>

record percentili_input =
  raster_isfile :: bool
  shape_isfile :: bool
  raster_opens :: bool
  gdf :: "zona list option"

text \<open>\<open>np.percentile(valid, q)\<close> for one level \<open>q\<close> between 0 and 100, by linear interpolation.\<close>

definition np_percentile :: "real list \<Rightarrow> int \<Rightarrow> real" where
  "np_percentile valid q =
     (let xs = sort valid;
          pos = real_of_int q / 100 * real (length xs - 1);
          lo = nat \<lfloor>pos\<rfloor>;
          hi = nat \<lceil>pos\<rceil>
      in xs ! lo + (xs ! hi - xs ! lo) * (pos - real lo))"

text \<open>
  The percentile entries of one row of \<open>risultati\<close>, as a dict keyed by the level. An
  exception inside the \<open>try\<close> (from \<open>mask\<close>, or from \<open>np.percentile\<close> for a level
  outside 0..100) gives the row of \<open>nan\<close>.
\<close>

definition percentili_zona :: "config \<Rightarrow> zona \<Rightarrow> (int \<times> npfloat) list" where
  "percentili_zona cfg z =
     (let tutti_nan = map (\<lambda>p. (p, NaN)) (PERCENTILI cfg);
          voci =
            (case celle_valide z of
               None \<Rightarrow> tutti_nan
             | Some valid \<Rightarrow>
                 if valid = [] then tutti_nan
                 else if list_all (\<lambda>p. 0 \<le> p \<and> p \<le> 100) (PERCENTILI cfg)
                 then map (\<lambda>p. (p, Fin (np_percentile valid p))) (PERCENTILI cfg)
                 else tutti_nan)
      in foldl (\<lambda>d (p, v). AList.update p v d) [] voci)"

text \<open>\<open>row.get('id', idx)\<close>.\<close>

definition id_zona :: "nat \<Rightarrow> zona \<Rightarrow> attr" where
  "id_zona idx z = (case attr_id z of None \<Rightarrow> ANum (Fin (real idx)) | Some a \<Rightarrow> a)"

text \<open>A row of the Excel table: the column \<open>IM\<close> and the percentile columns.\<close>

record riga =
  IM :: npfloat
  valori :: "(int \<times> npfloat) list"

datatype esito_percentili =
  RasterNonTrovato | ShapefileNonTrovato | Errore py_error | Excel "riga list"

text \<open>\<open>df["IM"] += 1\<close> and \<open>round(1)\<close> on one row; a value that is not a number raises.\<close>

fun righe_excel :: "(attr \<times> (int \<times> npfloat) list) list \<Rightarrow> py_error + riga list" where
  "righe_excel [] = Inr []"
| "righe_excel ((ANum v, ps) # rest) =
     (case righe_excel rest of
        Inl e \<Rightarrow> Inl e
      | Inr rs \<Rightarrow>
          Inr (\<lparr>IM = np_round 1 (np_add v (Fin 1)),
                valori = map (\<lambda>(p, x). (p, np_round 1 x)) ps\<rparr> # rs))"
| "righe_excel ((AStr s, ps) # rest) = Inl TypeError"

text \<open>
  \<open>calcolo_percentili(durata, raster_path)\<close>: the table handed to \<open>to_excel\<close>, or why
  there is none. An empty layer gives a frame without the column \<open>IM\<close>, hence
  \<open>KeyError\<close>; every exception is caught by the function and only printed.
\<close>

definition calcolo_percentili :: "config \<Rightarrow> percentili_input \<Rightarrow> esito_percentili" where
  "calcolo_percentili cfg inp =
     (if \<not> raster_isfile inp then RasterNonTrovato
      else if \<not> shape_isfile inp then ShapefileNonTrovato
      else
        (case gdf inp of
           None \<Rightarrow> Errore OSError
         | Some zone \<Rightarrow>
             if \<not> raster_opens inp then Errore RasterioIOError
             else
               (let risultati =
                      map (\<lambda>(idx, z). (id_zona idx z, percentili_zona cfg z))
                          (zip [0..<length zone] zone)
                in if risultati = [] then Errore KeyError
                   else (case righe_excel risultati of
                           Inl e \<Rightarrow> Errore e
                         | Inr righe \<Rightarrow> Excel righe))))"

subsection \<open>A Gregorian calendar for the examples\<close>

text \<open>
  The conversion between day numbers (day 0 is 1970-01-01) and civil dates, the
  formats with leading zeros, and \<open>datetime.strptime(s, "%Y%m%d %H")\<close> as CPython
  computes it.
\<close>

definition civil_of_mp :: "int \<Rightarrow> int \<Rightarrow> int \<Rightarrow> int \<Rightarrow> int \<times> int \<times> int" where
  "civil_of_mp era yoe doy mp =
     (yoe + era * 400 + (if 10 \<le> mp then 1 else 0),
      (if mp < 10 then mp + 3 else mp - 9),
      doy - (153 * mp + 2) div 5 + 1)"

definition civil_of_doy :: "int \<Rightarrow> int \<Rightarrow> int \<Rightarrow> int \<times> int \<times> int" where
  "civil_of_doy era yoe doy = civil_of_mp era yoe doy ((5 * doy + 2) div 153)"

definition civil_of_yoe :: "int \<Rightarrow> int \<Rightarrow> int \<Rightarrow> int \<times> int \<times> int" where
  "civil_of_yoe era doe yoe =
     civil_of_doy era yoe (doe - (365 * yoe + yoe div 4 - yoe div 100))"

definition civil_of_doe :: "int \<Rightarrow> int \<Rightarrow> int \<times> int \<times> int" where
  "civil_of_doe era doe =
     civil_of_yoe era doe ((doe - doe div 1460 + doe div 36524 - doe div 146096) div 365)"

definition civil_from_days :: "int \<Rightarrow> int \<times> int \<times> int" where
  "civil_from_days z = civil_of_doe ((z + 719468) div 146097) ((z + 719468) mod 146097)"

definition days_of_yoe :: "int \<Rightarrow> int \<Rightarrow> int \<Rightarrow> int" where
  "days_of_yoe era yoe doy =
     era * 146097 + (yoe * 365 + yoe div 4 - yoe div 100 + doy) - 719468"

definition days_of_year :: "int \<Rightarrow> int \<Rightarrow> int \<Rightarrow> int" where
  "days_of_year y m d =
     days_of_yoe (y div 400) (y mod 400)
       ((153 * (if 2 < m then m - 3 else m + 9) + 2) div 5 + d - 1)"

definition days_from_civil :: "int \<Rightarrow> int \<Rightarrow> int \<Rightarrow> int" where
  "days_from_civil y m d = days_of_year (if m \<le> 2 then y - 1 else y) m d"

definition fmt_digits :: "nat \<Rightarrow> int \<Rightarrow> string" where
  "fmt_digits w n = map (\<lambda>i. digit_char (nat (n div 10 ^ (w - 1 - i) mod 10))) [0..<w]"

definition ore_di :: "datetime \<Rightarrow> int" where
  "ore_di t = t div 3600000000"

definition datetime_of :: "int \<Rightarrow> int \<Rightarrow> int \<Rightarrow> int \<Rightarrow> int \<Rightarrow> datetime option" where
  "datetime_of y m d h giorni =
     (if 1 \<le> y \<and> h \<le> 23 \<and> civil_from_days giorni = (y, m, d)
      then Some ((giorni * 24 + h) * 3600000000) else None)"

definition datetime_of_fields :: "int \<Rightarrow> int \<Rightarrow> int \<Rightarrow> int \<Rightarrow> datetime option" where
  "datetime_of_fields y m d h = datetime_of y m d h (days_from_civil y m d)"

text \<open>
  \<open>strptime\<close> turns the format into the regular expression
  \<open>(\d\d\d\d)(1[0-2]|0[1-9]|[1-9])(3[0-1]|[1-2]\d|0[1-9]|[1-9]| [1-9])\s+(2[0-3]|[0-1]\d|\d)\<close>,
  takes the first match at the start of the string in the order the backtracking
  matcher tries them, and raises \<open>ValueError\<close> when there is none, when that match
  leaves characters of the string over, or when the four numbers are not a date and an
  hour. A matcher below gives the ways its pattern matches a prefix of the string, in
  that order, each as the matched text and the rest of the string.
\<close>

definition tra :: "char \<Rightarrow> char \<Rightarrow> char \<Rightarrow> bool" where
  "tra lo hi c = ((of_char lo :: nat) \<le> of_char c \<and> (of_char c :: nat) \<le> of_char hi)"

definition re_1 :: "(char \<Rightarrow> bool) \<Rightarrow> string \<Rightarrow> (string \<times> string) list" where
  "re_1 a s = (case s of c # r \<Rightarrow> if a c then [([c], r)] else [] | _ \<Rightarrow> [])"

definition re_2 :: "(char \<Rightarrow> bool) \<Rightarrow> (char \<Rightarrow> bool) \<Rightarrow> string \<Rightarrow> (string \<times> string) list" where
  "re_2 a b s = (case s of c # d # r \<Rightarrow> if a c \<and> b d then [([c, d], r)] else [] | _ \<Rightarrow> [])"

definition re_Y :: "string \<Rightarrow> (string \<times> string) list" where
  "re_Y s = (if 4 \<le> length s \<and> list_all is_digit (take 4 s) then [(take 4 s, drop 4 s)] else [])"

definition re_m :: "string \<Rightarrow> (string \<times> string) list" where
  "re_m s = re_2 (\<lambda>c. c = CHR ''1'') (tra CHR ''0'' CHR ''2'') s
          @ re_2 (\<lambda>c. c = CHR ''0'') (tra CHR ''1'' CHR ''9'') s
          @ re_1 (tra CHR ''1'' CHR ''9'') s"

definition re_d :: "string \<Rightarrow> (string \<times> string) list" where
  "re_d s = re_2 (\<lambda>c. c = CHR ''3'') (tra CHR ''0'' CHR ''1'') s
          @ re_2 (tra CHR ''1'' CHR ''2'') is_digit s
          @ re_2 (\<lambda>c. c = CHR ''0'') (tra CHR ''1'' CHR ''9'') s
          @ re_1 (tra CHR ''1'' CHR ''9'') s
          @ re_2 (\<lambda>c. c = CHR '' '') (tra CHR ''1'' CHR ''9'') s"

text \<open>\<open>\s+\<close> is greedy: the longest run of spaces first, then the shorter ones.\<close>

definition re_ws :: "string \<Rightarrow> (string \<times> string) list" where
  "re_ws s = map (\<lambda>k. (take k s, drop k s)) (rev [1..<Suc (length (takeWhile is_space s))])"

definition re_H :: "string \<Rightarrow> (string \<times> string) list" where
  "re_H s = re_2 (\<lambda>c. c = CHR ''2'') (tra CHR ''0'' CHR ''3'') s
          @ re_2 (tra CHR ''0'' CHR ''1'') is_digit s
          @ re_1 is_digit s"

text \<open>
  The matches of the whole expression, in order: the texts of the four groups and the
  rest of the string.
\<close>

definition re_Ymd_H :: "string \<Rightarrow> ((string \<times> string \<times> string \<times> string) \<times> string) list" where
  "re_Ymd_H s =
     concat (map (\<lambda>(gy, r1).
       concat (map (\<lambda>(gm, r2).
         concat (map (\<lambda>(gd, r3).
           concat (map (\<lambda>(sp, r4).
             map (\<lambda>(gh, r5). ((gy, gm, gd, gh), r5)) (re_H r4))
             (re_ws r3)))
           (re_d r2)))
         (re_m r1)))
       (re_Y s))"

text \<open>\<open>int\<close> of a group; the day may have matched with a space in front.\<close>

definition int_gruppo :: "string \<Rightarrow> int" where
  "int_gruppo g = int (int_of_digits (filter is_digit g))"

definition parse_Ymd_H :: "string \<Rightarrow> datetime option" where
  "parse_Ymd_H s =
     (case re_Ymd_H s of
        [] \<Rightarrow> None
      | ((gy, gm, gd, gh), rest) # _ \<Rightarrow>
          if rest \<noteq> [] then None
          else datetime_of_fields (int_gruppo gy) (int_gruppo gm) (int_gruppo gd) (int_gruppo gh))"

definition fmt_YmdH :: "int \<times> int \<times> int \<Rightarrow> int \<Rightarrow> string" where
  "fmt_YmdH ymd h =
     fmt_digits 4 (fst ymd) @ fmt_digits 2 (fst (snd ymd)) @ fmt_digits 2 (snd (snd ymd))
       @ fmt_digits 2 h"

definition gregoriano :: calendar where
  "gregoriano =
     \<lparr>strftime_Y = (\<lambda>t. fmt_digits 4 (fst (civil_from_days (ore_di t div 24)))),
      strftime_m = (\<lambda>t. fmt_digits 2 (fst (snd (civil_from_days (ore_di t div 24))))),
      strftime_d = (\<lambda>t. fmt_digits 2 (snd (snd (civil_from_days (ore_di t div 24))))),
      strftime_YmdH = (\<lambda>t. fmt_YmdH (civil_from_days (ore_di t div 24)) (ore_di t mod 24)),
      strptime_Ymd_H = parse_Ymd_H\<rparr>"

subsection \<open>An archive for the examples\<close>

text \<open>
  The root \<open>/mcm\<close> holds the files of 05:00 and 06:00 of 2024-01-01, each readable
  and stored with the reference system EPSG:32632; the process starts at 06:20. The
  layers are of dtype \<open>int16\<close>. The rewrite of the examples adds 366 bytes to the file
  and changes nothing else in it.
\<close>

definition cfg_esempio :: config where
  "cfg_esempio = \<lparr>RADICE_ARCHIVIO = ''/mcm'', ORE_CONTROLLO_ARCHIVIO = 3,
                   ORE_ESCLUSE_RECENTI = 1, PERCENTILI = [5, 50, 95]\<rparr>"

definition file_esempio :: "int grid \<Rightarrow> int raster_file" where
  "file_esempio g = \<lparr>st_size = 4096, tiff_ok = True, update_ok = True, band1 = Some g,
                      crs = Some 32632\<rparr>"

definition archivio_esempio :: "int raster_file \<Rightarrow> int raster_file \<Rightarrow> int archive" where
  "archivio_esempio f5 f6 =
     \<lparr>files = [''/mcm/2024/01/01/MCM_20240101050000.tif'' \<mapsto> f5,
               ''/mcm/2024/01/01/MCM_20240101060000.tif'' \<mapsto> f6],
      listdir = [''/mcm/2024/01/01'' \<mapsto> [''MCM_20240101050000.tif'', ''MCM_20240101060000.tif'']]\<rparr>"

definition ore_0620 :: datetime where
  "ore_0620 = 1704090000000000"

definition post_ok :: "int grid \<Rightarrow> py_error + bool" where
  "post_ok g = Inr True"

definition riscritto_esempio :: "int raster_file \<Rightarrow> int raster_file" where
  "riscritto_esempio f = f\<lparr>st_size := st_size f + 366\<rparr>"

text \<open>
  The same root before the acquisition system has written anything: no file, and no
  directory for the day. And the root with a day directory that holds one file of
  another kind.
\<close>

definition archivio_vuoto :: "int archive" where
  "archivio_vuoto = \<lparr>files = Map.empty, listdir = Map.empty\<rparr>"

definition archivio_estraneo :: "int archive" where
  "archivio_estraneo = \<lparr>files = Map.empty, listdir = [''/mcm/2024/01/01'' \<mapsto> [''README'']]\<rparr>"

subsection \<open>A curve-number directory for the examples\<close>

text \<open>
  Two rasters, for the zones 1 and 2, and no cache file yet; \<open>cn_dopo\<close> is the same
  directory with the cache that the first call writes.
\<close>

definition cn_esempio :: cn_files where
  "cn_esempio =
     \<lparr>glob_asc = [''/cn/CN_IM_01.ASC'', ''/cn/CN_IM_02.ASC''],
      getmtime = [''/cn/CN_IM_01.ASC'' \<mapsto> 100, ''/cn/CN_IM_02.ASC'' \<mapsto> 200],
      asc_band = [''/cn/CN_IM_01.ASC'' \<mapsto> [Some 70, Some 80, None],
                  ''/cn/CN_IM_02.ASC'' \<mapsto> [Some 60]],
      cache_file = Absent,
      opened = []\<rparr>"

definition cn_dopo :: cn_files where
  "cn_dopo =
     cn_esempio
       \<lparr>cache_file := Parsed \<lparr>zone_cn = [(''IM-01'', Fin 75), (''IM-02'', Fin 60)],
                                mtimes = [(''/cn/CN_IM_01.ASC'', 100), (''/cn/CN_IM_02.ASC'', 200)]\<rparr>,
        opened := [''/cn/CN_IM_01.ASC'', ''/cn/CN_IM_02.ASC'']\<rparr>"

subsection \<open>Rows that \<open>process_sheet\<close> skips\<close>

text \<open>
  A row the loop of \<open>process_sheet\<close> passes over with \<open>continue\<close>: its zone does not
  normalize, or the normalized zone has no curve number.
\<close>

definition non_convertita ::
  "(string \<Rightarrow> npfloat option) \<Rightarrow> (string \<times> npfloat) list \<Rightarrow> row \<Rightarrow> bool" where
  "non_convertita py_float zcn r =
     (case normalizza_zona py_float (fst r) of
        None \<Rightarrow> True
      | Some key \<Rightarrow> map_of zcn key = None)"

text \<open>
  A sheet for the examples, with two value columns: zone 1 has a curve number,
  \<open>zona\<close> is not a zone name, zone 7 has no curve number. No string of the sheet is a
  number.
\<close>

definition foglio_esempio :: "row list" where
  "foglio_esempio =
     [(CStr ''IM-01'', [CFloat (Fin (381 / 2)), CFloat (Fin (1905 / 2))]),
      (CStr ''zona'', [CFloat (Fin 5), CStr ''n/a'']),
      (CFloat (Fin 7), [CFloat (Fin 3), CFloat (Fin 4)])]"

definition nessun_float :: "string \<Rightarrow> npfloat option" where
  "nessun_float s = None"

subsection \<open>The identifier column, and layers for the examples\<close>

text \<open>The column \<open>IM\<close> of the table, when there is a table.\<close>

definition colonna_IM :: "esito_percentili \<Rightarrow> npfloat list option" where
  "colonna_IM e = (case e of Excel righe \<Rightarrow> Some (map IM righe) | _ \<Rightarrow> None)"

text \<open>
  Two layers of two zones: one whose attribute table has a field \<open>id\<close> with the
  values 10 and 20, one without such a field.
\<close>

definition zone_con_id :: "zona list" where
  "zone_con_id =
     [\<lparr>attr_id = Some (ANum (Fin 10)), celle_valide = Some [3]\<rparr>,
      \<lparr>attr_id = Some (ANum (Fin 20)), celle_valide = Some []\<rparr>]"

definition zone_senza_id :: "zona list" where
  "zone_senza_id =
     [\<lparr>attr_id = None, celle_valide = Some [3]\<rparr>,
      \<lparr>attr_id = None, celle_valide = None\<rparr>]"

definition input_esempio :: "zona list \<Rightarrow> percentili_input" where
  "input_esempio zone =
     \<lparr>raster_isfile = True, shape_isfile = True, raster_opens = True, gdf = Some zone\<rparr>"

section \<open>Properties of \<open>calcola_peq0\<close>\<close>












lemma calcola_peq0_lam_arg:
  "calcola_peq0 LAMBDA p5 cn (Some lam) = calcola_peq0 lam p5 cn None"
  by (simp add: calcola_peq0_def)

lemma sqrt_64516: "sqrt 64516 = 254"
  by (rule real_sqrt_unique) simp_all

lemma sqrt_258064: "sqrt 258064 = 508"
  by (rule real_sqrt_unique) simp_all










section \<open>The example archive, evaluated\<close>

lemma ore_di_es: "ore_di ore_0620 = 473358" "ore_di 1704088800000000 = 473358" "ore_di 1704085200000000 = 473357"
  by (simp_all add: ore_di_def ore_0620_def)
lemma civil_es: "civil_from_days 19723 = (2024, 1, 1)"
  by (simp add: civil_from_days_def civil_of_doe_def civil_of_yoe_def civil_of_doy_def civil_of_mp_def)
lemma fmt_es: "fmt_digits 4 2024 = ''2024''" "fmt_digits 2 1 = ''01''" "fmt_digits 2 5 = ''05''" "fmt_digits 2 6 = ''06''"
  by (simp_all add: fmt_digits_def digit_char_def upt_conv_Cons)
lemma strftime_es:
  "strftime_Y gregoriano ore_0620 = ''2024''" "strftime_m gregoriano ore_0620 = ''01''" "strftime_d gregoriano ore_0620 = ''01''"
  "strftime_Y gregoriano 1704088800000000 = ''2024''" "strftime_m gregoriano 1704088800000000 = ''01''"
  "strftime_d gregoriano 1704088800000000 = ''01''" "strftime_YmdH gregoriano 1704088800000000 = ''2024010106''"
  "strftime_Y gregoriano 1704085200000000 = ''2024''" "strftime_m gregoriano 1704085200000000 = ''01''"
  "strftime_d gregoriano 1704085200000000 = ''01''" "strftime_YmdH gregoriano 1704085200000000 = ''2024010105''"
  by (simp_all add: gregoriano_def ore_di_es civil_es fmt_es fmt_YmdH_def)
lemma re_es:
  "re_Y ''20240101 06'' = [(''2024'', ''0101 06'')]"
  "re_m ''0101 06'' = [(''01'', ''01 06'')]"
  "re_d ''01 06'' = [(''01'', '' 06'')]"
  "re_ws '' 06'' = [('' '', ''06'')]"
  "re_H ''06'' = [(''06'', []), (''0'', ''6'')]"
  by (simp_all add: re_Y_def re_m_def re_d_def re_ws_def re_H_def re_1_def re_2_def tra_def
        is_digit_def is_space_def)
lemma re_Ymd_H_es:
  "re_Ymd_H ''20240101 06'' =
     [((''2024'', ''01'', ''01'', ''06''), []), ((''2024'', ''01'', ''01'', ''0''), ''6'')]"
  by (simp add: re_Ymd_H_def re_es)
lemma parse_es: "parse_Ymd_H ''20240101 06'' = Some 1704088800000000"
proof -
  have d: "days_from_civil 2024 1 1 = 19723"
    by (simp add: days_from_civil_def days_of_year_def days_of_yoe_def)
  have n: "int_gruppo ''2024'' = 2024" "int_gruppo ''01'' = 1" "int_gruppo ''06'' = 6"
    by (simp_all add: int_gruppo_def int_of_digits_def digit_val_def is_digit_def)
  show ?thesis
    by (simp add: parse_Ymd_H_def re_Ymd_H_es n datetime_of_fields_def datetime_of_def d civil_es)
qed
lemma parse_estraneo: "parse_Ymd_H ''ME '' = None"
  by (simp add: parse_Ymd_H_def re_Ymd_H_def re_Y_def)
lemma path_es:
  "costruisci_path_file cfg_esempio gregoriano 1704085200000000 ''MCM_20240101050000.tif''
     = ''/mcm/2024/01/01/MCM_20240101050000.tif''"
  "costruisci_path_file cfg_esempio gregoriano 1704088800000000 ''MCM_20240101060000.tif''
     = ''/mcm/2024/01/01/MCM_20240101060000.tif''"
  "nome_file_ora gregoriano 1704085200000000 = ''MCM_20240101050000.tif''"
  "nome_file_ora gregoriano 1704088800000000 = ''MCM_20240101060000.tif''"
  by (simp_all add: costruisci_path_file_def nome_file_ora_def cfg_esempio_def strftime_es
        PREFISSO_FILE_def MINUTO_CORRENTE_def)
lemma anchor_es:
  "ora_ultimo_file cfg_esempio gregoriano (archivio_esempio f5 f6) ore_0620 = Inr 1704088800000000"
proof -
  have p: "strptime_Ymd_H gregoriano ''20240101 06'' = Some 1704088800000000"
    by (simp add: gregoriano_def parse_es)
  show ?thesis
    by (simp add: ora_ultimo_file_def path_oggi_def data_ora_di_def cfg_esempio_def strftime_es
          archivio_esempio_def slice_def p)
qed
lemma path_oggi_es: "path_oggi cfg_esempio gregoriano ore_0620 = ''/mcm/2024/01/01''"
  by (simp add: path_oggi_def cfg_esempio_def strftime_es)
lemma anchor_vuoto:
  "ora_ultimo_file cfg_esempio gregoriano archivio_vuoto ore_0620 = Inl None"
  by (simp add: ora_ultimo_file_def archivio_vuoto_def)
lemma anchor_estraneo:
  "ora_ultimo_file cfg_esempio gregoriano archivio_estraneo ore_0620 = Inl (Some ValueError)"
proof -
  have p: "strptime_Ymd_H gregoriano ''ME '' = None"
    by (simp add: gregoriano_def parse_estraneo)
  show ?thesis
    by (simp add: ora_ultimo_file_def path_oggi_def data_ora_di_def cfg_esempio_def strftime_es
          archivio_estraneo_def slice_def p)
qed
lemma date_es: "lista_date 1704088800000000 2 = [1704085200000000, 1704088800000000]"
  "lista_date 1704088800000000 1 = [1704088800000000]"
  by (simp_all add: lista_date_def timedelta_hours_def upt_conv_Cons)
lemma files_es:
  "files (archivio_esempio f5 f6) ''/mcm/2024/01/01/MCM_20240101050000.tif'' = Some f5"
  "files (archivio_esempio f5 f6) ''/mcm/2024/01/01/MCM_20240101060000.tif'' = Some f6"
  by (simp_all add: archivio_esempio_def)
lemma stamp_es:
  "stamp_crs r (archivio_esempio f5 f6) ''/mcm/2024/01/01/MCM_20240101050000.tif'' f
     = archivio_esempio ((r f)\<lparr>crs := Some 4326\<rparr>) f6"
  "stamp_crs r (archivio_esempio f5 f6) ''/mcm/2024/01/01/MCM_20240101060000.tif'' f
     = archivio_esempio f5 ((r f)\<lparr>crs := Some 4326\<rparr>)"
  by (auto simp: stamp_crs_def archivio_esempio_def)
lemma file_esempio_sel:
  "st_size (file_esempio g) = 4096" "tiff_ok (file_esempio g)" "update_ok (file_esempio g)"
  "band1 (file_esempio g) = Some g" "crs (file_esempio g) = Some 32632"
  by (simp_all add: file_esempio_def)

section \<open>Properties of \<open>controlla_file_archivio_completo\<close>\<close>





section \<open>Properties of \<open>calcolo_cumulata\<close>\<close>

lemma raccogli_file_non_validi:
  assumes "\<forall>t\<in>set ds. classifica_file fs (costruisci_path_file cfg cal t (nome_file_ora cal t)) \<noteq> Valido"
  shows "raccogli_file cfg cal fs ds (lf, fp) =
         (lf, fp @ map (\<lambda>t. nome_file_ora cal t @
                   suffisso_problema (classifica_file fs
                     (costruisci_path_file cfg cal t (nome_file_ora cal t)))) ds)"
  using assms
proof (induction ds arbitrary: fp)
  case Nil
  then show ?case by simp
next
  case (Cons d ds)
  then show ?case
    by (cases "classifica_file fs (costruisci_path_file cfg cal d (nome_file_ora cal d))")
       (simp_all add: Let_def suffisso_problema_def)
qed

lemma raccogli_file_validi:
  assumes "\<forall>t\<in>set ds. classifica_file fs (costruisci_path_file cfg cal t (nome_file_ora cal t)) = Valido"
  shows "raccogli_file cfg cal fs ds (lf, fp) =
         (lf @ map (\<lambda>t. costruisci_path_file cfg cal t (nome_file_ora cal t)) ds, fp)"
  using assms
proof (induction ds arbitrary: lf)
  case Nil
  then show ?case by simp
next
  case (Cons d ds)
  then show ?case by (simp add: Let_def)
qed

lemma length_lista_date: "length (lista_date a D) = nat D"
  by (simp add: lista_date_def)

lemma ora_ultimo_file_senza_elenco:
  "listdir fs (path_oggi cfg cal now) = None \<or> listdir fs (path_oggi cfg cal now) = Some [] \<Longrightarrow>
   ora_ultimo_file cfg cal fs now = Inl None"
  by (auto simp: ora_ultimo_file_def)

lemma ora_ultimo_file_senza_data:
  "listdir fs (path_oggi cfg cal now) = Some dir_list \<Longrightarrow> dir_list \<noteq> [] \<Longrightarrow>
   strptime_Ymd_H cal (data_ora_di (last dir_list)) = None \<Longrightarrow>
   ora_ultimo_file cfg cal fs now = Inl (Some ValueError)"
  by (simp add: ora_ultimo_file_def)

text \<open>
  C4, as the code has it. When the anchor hour is found and none of the \<open>D\<close> required
  files is valid, \<open>calcolo_cumulata\<close> returns \<open>False\<close>, produces no buffer, leaves the
  archive as it was, and its problem list has one annotated entry per required hour,
  \<open>D\<close> in all. When today's directory cannot be listed or is empty, no anchor hour
  exists: the function returns \<open>False\<close> with an empty problem list. When the last name
  of the listing does not give a date and an hour, the \<open>ValueError\<close> of \<open>strptime\<close>
  leaves the function. In all three cases there is no buffer and the archive is as it
  was.
\<close>

theorem calcolo_cumulata_no_valid_file:
  "(ora_ultimo_file cfg cal fs now = Inr a \<and>
    (\<forall>t\<in>set (lista_date a (int D)).
        classifica_file fs (costruisci_path_file cfg cal t (nome_file_ora cal t)) \<noteq> Valido) \<longrightarrow>
      calcolo_cumulata cfg cal piu riscritto post fs now (int D) =
        \<lparr>ritorno = Inr (False,
             map (\<lambda>t. nome_file_ora cal t @
                    suffisso_problema (classifica_file fs
                      (costruisci_path_file cfg cal t (nome_file_ora cal t))))
                 (lista_date a (int D))),
         data_sommata = None, archivio_dopo = fs\<rparr>
      \<and> length (map (\<lambda>t. nome_file_ora cal t @
                    suffisso_problema (classifica_file fs
                      (costruisci_path_file cfg cal t (nome_file_ora cal t))))
                 (lista_date a (int D))) = D) \<and>
   (listdir fs (path_oggi cfg cal now) = None \<or> listdir fs (path_oggi cfg cal now) = Some [] \<longrightarrow>
      calcolo_cumulata cfg cal piu riscritto post fs now (int D) =
        \<lparr>ritorno = Inr (False, []), data_sommata = None, archivio_dopo = fs\<rparr>) \<and>
   (listdir fs (path_oggi cfg cal now) = Some dir_list \<and> dir_list \<noteq> [] \<and>
    strptime_Ymd_H cal (data_ora_di (last dir_list)) = None \<longrightarrow>
      calcolo_cumulata cfg cal piu riscritto post fs now (int D) =
        \<lparr>ritorno = Inl ValueError, data_sommata = None, archivio_dopo = fs\<rparr>)"
proof (intro conjI impI)
  assume h: "ora_ultimo_file cfg cal fs now = Inr a \<and>
    (\<forall>t\<in>set (lista_date a (int D)).
        classifica_file fs (costruisci_path_file cfg cal t (nome_file_ora cal t)) \<noteq> Valido)"
  then show "calcolo_cumulata cfg cal piu riscritto post fs now (int D) =
        \<lparr>ritorno = Inr (False,
             map (\<lambda>t. nome_file_ora cal t @
                    suffisso_problema (classifica_file fs
                      (costruisci_path_file cfg cal t (nome_file_ora cal t))))
                 (lista_date a (int D))),
         data_sommata = None, archivio_dopo = fs\<rparr>"
    by (simp add: calcolo_cumulata_def raccogli_file_non_validi length_lista_date)
  show "length (map (\<lambda>t. nome_file_ora cal t @
                    suffisso_problema (classifica_file fs
                      (costruisci_path_file cfg cal t (nome_file_ora cal t))))
                 (lista_date a (int D))) = D"
    by (simp add: length_lista_date)
next
  assume "listdir fs (path_oggi cfg cal now) = None \<or> listdir fs (path_oggi cfg cal now) = Some []"
  then have "ora_ultimo_file cfg cal fs now = Inl None"
    by (rule ora_ultimo_file_senza_elenco)
  then show "calcolo_cumulata cfg cal piu riscritto post fs now (int D) =
        \<lparr>ritorno = Inr (False, []), data_sommata = None, archivio_dopo = fs\<rparr>"
    by (simp add: calcolo_cumulata_def)
next
  assume "listdir fs (path_oggi cfg cal now) = Some dir_list \<and> dir_list \<noteq> [] \<and>
    strptime_Ymd_H cal (data_ora_di (last dir_list)) = None"
  then have "ora_ultimo_file cfg cal fs now = Inl (Some ValueError)"
    by (simp add: ora_ultimo_file_senza_data)
  then show "calcolo_cumulata cfg cal piu riscritto post fs now (int D) =
        \<lparr>ritorno = Inl ValueError, data_sommata = None, archivio_dopo = fs\<rparr>"
    by (simp add: calcolo_cumulata_def)
qed

theorem calcolo_cumulata_no_valid_file_witness:
  "ora_ultimo_file cfg_esempio gregoriano
     (archivio_esempio ((file_esempio [[1, 2]])\<lparr>st_size := 0\<rparr>)
                       ((file_esempio [[10, 20]])\<lparr>tiff_ok := False\<rparr>)) ore_0620
     = Inr 1704088800000000 \<and>
   calcolo_cumulata cfg_esempio gregoriano piu_int16 riscritto_esempio post_ok
     (archivio_esempio ((file_esempio [[1, 2]])\<lparr>st_size := 0\<rparr>)
                       ((file_esempio [[10, 20]])\<lparr>tiff_ok := False\<rparr>)) ore_0620 (int 2)
     = \<lparr>ritorno = Inr (False, [''MCM_20240101050000.tif (empty)'',
                               ''MCM_20240101060000.tif (corrupted)'']),
        data_sommata = None,
        archivio_dopo = archivio_esempio ((file_esempio [[1, 2]])\<lparr>st_size := 0\<rparr>)
                          ((file_esempio [[10, 20]])\<lparr>tiff_ok := False\<rparr>)\<rparr> \<and>
   length [''MCM_20240101050000.tif (empty)'', ''MCM_20240101060000.tif (corrupted)''] = 2 \<and>
   listdir archivio_vuoto (path_oggi cfg_esempio gregoriano ore_0620) = None \<and>
   calcolo_cumulata cfg_esempio gregoriano piu_int16 riscritto_esempio post_ok
     archivio_vuoto ore_0620 (int 2)
     = \<lparr>ritorno = Inr (False, []), data_sommata = None, archivio_dopo = archivio_vuoto\<rparr> \<and>
   listdir archivio_estraneo (path_oggi cfg_esempio gregoriano ore_0620) = Some [''README''] \<and>
   strptime_Ymd_H gregoriano (data_ora_di (last [''README''])) = None \<and>
   calcolo_cumulata cfg_esempio gregoriano piu_int16 riscritto_esempio post_ok
     archivio_estraneo ore_0620 (int 2)
     = \<lparr>ritorno = Inl ValueError, data_sommata = None, archivio_dopo = archivio_estraneo\<rparr>"
proof -
  let ?fs = "archivio_esempio ((file_esempio [[1, 2]])\<lparr>st_size := 0\<rparr>)
                              ((file_esempio [[10, 20]])\<lparr>tiff_ok := False\<rparr>)"
  have c: "classifica_file ?fs ''/mcm/2024/01/01/MCM_20240101050000.tif'' = Vuoto"
          "classifica_file ?fs ''/mcm/2024/01/01/MCM_20240101060000.tif'' = Corrotto"
    by (simp_all add: classifica_file_def verifica_file_tiff_def files_es file_esempio_sel)
  have h: "\<forall>t\<in>set (lista_date 1704088800000000 (int 2)).
             classifica_file ?fs (costruisci_path_file cfg_esempio gregoriano t
                (nome_file_ora gregoriano t)) \<noteq> Valido"
    by (simp add: date_es path_es c)
  have v: "listdir archivio_vuoto (path_oggi cfg_esempio gregoriano ore_0620) = None"
    by (simp add: archivio_vuoto_def)
  have e: "listdir archivio_estraneo (path_oggi cfg_esempio gregoriano ore_0620) = Some [''README'']"
    by (simp add: archivio_estraneo_def path_oggi_es)
  have p: "strptime_Ymd_H gregoriano (data_ora_di (last [''README''])) = None"
    by (simp add: gregoriano_def data_ora_di_def slice_def parse_estraneo)
  show ?thesis
    using calcolo_cumulata_no_valid_file [of cfg_esempio gregoriano ?fs ore_0620
        1704088800000000 2 piu_int16 riscritto_esempio post_ok]
      calcolo_cumulata_no_valid_file [of cfg_esempio gregoriano archivio_vuoto ore_0620
        0 2 piu_int16 riscritto_esempio post_ok]
      calcolo_cumulata_no_valid_file [of cfg_esempio gregoriano archivio_estraneo ore_0620
        0 2 piu_int16 riscritto_esempio post_ok "[''README'']"]
      anchor_es [of "(file_esempio [[1, 2]])\<lparr>st_size := 0\<rparr>"
                    "(file_esempio [[10, 20]])\<lparr>tiff_ok := False\<rparr>"] h v e p
    by (simp add: date_es path_es c suffisso_problema_def)
qed

text \<open>
  C4 as stated fails: in the archive below no file exists at all, so each of the two
  required hourly files is missing, and so is today's directory; \<open>calcolo_cumulata\<close>
  returns \<open>False\<close> with an empty problem list, not one of length 2.
\<close>

theorem calcolo_cumulata_no_valid_file_counterexample:
  "files archivio_vuoto = Map.empty \<and>
   classifica_file archivio_vuoto ''/mcm/2024/01/01/MCM_20240101050000.tif'' = Mancante \<and>
   classifica_file archivio_vuoto ''/mcm/2024/01/01/MCM_20240101060000.tif'' = Mancante \<and>
   calcolo_cumulata cfg_esempio gregoriano piu_int16 riscritto_esempio post_ok
     archivio_vuoto ore_0620 2
     = \<lparr>ritorno = Inr (False, []), data_sommata = None, archivio_dopo = archivio_vuoto\<rparr> \<and>
   length ([] :: string list) \<noteq> 2"
  by (simp add: calcolo_cumulata_def anchor_vuoto classifica_file_def)
     (simp add: archivio_vuoto_def)

lemma forma_width: "forma h w g \<Longrightarrow> 0 < h \<Longrightarrow> grid_width g = w"
  by (cases g) (auto simp: forma_def grid_width_def)

lemma grid_add_forma:
  assumes a: "forma h w a" and b: "forma h w b" and h: "0 < h"
  shows "\<exists>c. grid_add piu a b = Some c \<and> forma h w c \<and>
             (\<forall>i<h. \<forall>j<w. c ! i ! j = piu (a ! i ! j) (b ! i ! j))"
proof -
  let ?c = "map (\<lambda>i. map (\<lambda>j. piu (grid_at a i j) (grid_at b i j)) [0..<w]) [0..<h]"
  have la: "length a = h" and lb: "length b = h" using a b by (simp_all add: forma_def)
  have wa: "grid_width a = w" and wb: "grid_width b = w"
    using a b h by (simp_all add: forma_width)
  have eq: "grid_add piu a b = Some ?c"
    by (simp add: grid_add_def broadcast_dim_def la lb wa wb)
  have f: "forma h w ?c" by (simp add: forma_def list_all_iff)
  have at: "grid_at a i j = a ! i ! j" "grid_at b i j = b ! i ! j" if "i < h" "j < w" for i j
    using that by (auto simp: grid_at_def la lb wa wb)
  have "\<forall>i<h. \<forall>j<w. ?c ! i ! j = piu (a ! i ! j) (b ! i ! j)"
    by (simp add: at)
  then show ?thesis using eq f by blast
qed

lemma somma_file_celle:
  assumes "forma h w data" and "0 < h"
    and "\<forall>t\<in>set ts. \<exists>f. files fs (pth t) = Some f \<and> band1 f = Some (strato t) \<and>
            forma h w (strato t)"
  shows "forma h w (fst (somma_file piu fs (map pth ts) (data, n))) \<and>
         (\<forall>i<h. \<forall>j<w. fst (somma_file piu fs (map pth ts) (data, n)) ! i ! j
                          = somma_celle piu (data ! i ! j) (map (\<lambda>t. strato t ! i ! j) ts))"
  using assms
proof (induction ts arbitrary: data n)
  case Nil
  then show ?case by (simp add: somma_celle_def)
next
  case (Cons t ts)
  from Cons.prems(3) obtain f where f: "files fs (pth t) = Some f" "band1 f = Some (strato t)"
      "forma h w (strato t)" by auto
  from grid_add_forma [OF Cons.prems(1) f(3) Cons.prems(2), of piu]
  obtain c where c: "grid_add piu data (strato t) = Some c" "forma h w c"
      "\<forall>i<h. \<forall>j<w. c ! i ! j = piu (data ! i ! j) (strato t ! i ! j)" by blast
  have step: "somma_file piu fs (map pth (t # ts)) (data, n)
                = somma_file piu fs (map pth ts) (c, n + 1)"
    by (simp add: f c)
  have rest: "\<forall>t\<in>set ts. \<exists>f. files fs (pth t) = Some f \<and> band1 f = Some (strato t) \<and>
            forma h w (strato t)"
    using Cons.prems(3) by simp
  from Cons.IH [OF c(2) Cons.prems(2) rest, of "n + 1"] c(3)
  show ?case unfolding step by (simp add: somma_celle_def)
qed

lemma somme_esatte_sum_list:
  "somme_esatte piu acc xs \<Longrightarrow> somma_celle piu acc xs = acc + sum_list xs"
  unfolding somma_celle_def
proof (induction xs arbitrary: acc)
  case Nil
  then show ?case by simp
next
  case (Cons x xs)
  from Cons.prems [unfolded somme_esatte.simps]
  have e: "piu acc x = acc + x" and r: "somme_esatte piu (piu acc x) xs"
    by blast+
  have "foldl piu (piu acc x) xs = piu acc x + sum_list xs" using r by (rule Cons.IH)
  then show ?case by (simp add: e add.assoc)
qed

lemma lista_date_nonempty: "1 \<le> D \<Longrightarrow> lista_date a D \<noteq> []"
  by (simp add: lista_date_def)

lemma distinct_lista_date: "distinct (lista_date a D)"
  unfolding lista_date_def
  by (rule distinct_map [THEN iffD2]) (auto simp: inj_on_def timedelta_hours_def)

lemma files_stamp_crs:
  "files (stamp_crs r fs p f) q = (if q = p then Some ((r f)\<lparr>crs := Some 4326\<rparr>) else files fs q)"
  by (simp add: stamp_crs_def)

text \<open>
  C1, as the code has it. Let the anchor hour be found and \<open>D \<ge> 1\<close>. When each of the
  \<open>D\<close> required files is present and valid, is read in full by the summing pass, and
  all the layers have one shape \<open>(h, w)\<close> with \<open>h, w > 0\<close>; when different hours of the
  window have different file paths; when the first file opens for update; and when the
  steps after the sum complete: then \<open>calcolo_cumulata\<close> returns success with an
  empty problem list, and every cell of the summed buffer is what the addition of the
  array dtype makes of the corresponding cells of the \<open>D\<close> layers, added in the order
  of the hours. Where none of these additions wraps around or is rounded, the cell is
  the arithmetic sum of the \<open>D\<close> cells.
\<close>

theorem calcolo_cumulata_all_valid:
  assumes anchor: "ora_ultimo_file cfg cal fs now = Inr a"
    and D: "1 \<le> D"
    and valid: "\<forall>t\<in>set (lista_date a D).
           \<exists>f. files fs (costruisci_path_file cfg cal t (nome_file_ora cal t)) = Some f \<and>
               st_size f \<noteq> 0 \<and> tiff_ok f \<and> band1 f = Some (strato t) \<and> forma h w (strato t)"
    and nomi: "inj_on (\<lambda>t. costruisci_path_file cfg cal t (nome_file_ora cal t))
                 (set (lista_date a D))"
    and upd: "\<forall>f. files fs (costruisci_path_file cfg cal (hd (lista_date a D))
                       (nome_file_ora cal (hd (lista_date a D)))) = Some f \<longrightarrow> update_ok f"
    and hw: "0 < h" "0 < w"
    and post: "\<forall>g. post g = Inr True"
  shows "ritorno (calcolo_cumulata cfg cal piu riscritto post fs now D) = Inr (True, []) \<and>
         (\<exists>b. data_sommata (calcolo_cumulata cfg cal piu riscritto post fs now D) = Some b \<and>
              forma h w b \<and>
              (\<forall>i<h. \<forall>j<w.
                 b ! i ! j = somma_celle piu (strato (hd (lista_date a D)) ! i ! j)
                               (map (\<lambda>t. strato t ! i ! j) (tl (lista_date a D))) \<and>
                 (somme_esatte piu (strato (hd (lista_date a D)) ! i ! j)
                               (map (\<lambda>t. strato t ! i ! j) (tl (lista_date a D))) \<longrightarrow>
                  b ! i ! j = (\<Sum>t\<leftarrow>lista_date a D. strato t ! i ! j))))"
proof -
  let ?pth = "\<lambda>t. costruisci_path_file cfg cal t (nome_file_ora cal t)"
  let ?ds = "lista_date a D"
  obtain d0 rest where ds: "?ds = d0 # rest"
    using lista_date_nonempty [OF D, of a] by (cases ?ds) auto
  have cls: "\<forall>t\<in>set ?ds. classifica_file fs (?pth t) = Valido"
    using valid by (auto simp: classifica_file_def verifica_file_tiff_def)
  have racc: "raccogli_file cfg cal fs ?ds ([], []) = (map ?pth ?ds, [])"
    using raccogli_file_validi [OF cls, of "[]" "[]"] by simp
  have racc': "raccogli_file cfg cal fs ?ds ([], []) = (?pth d0 # map ?pth rest, [])"
    by (simp only: racc) (simp add: ds)
  from valid ds obtain f0 where f0: "files fs (?pth d0) = Some f0" "band1 f0 = Some (strato d0)"
      "forma h w (strato d0)" by auto
  have u0: "update_ok f0" using upd f0(1) ds by simp
  let ?fs' = "stamp_crs riscritto fs (?pth d0) f0"
  have d0: "d0 \<notin> set rest" using distinct_lista_date [of a D] ds by simp
  have rest: "\<forall>t\<in>set rest. \<exists>f. files ?fs' (?pth t) = Some f \<and> band1 f = Some (strato t) \<and>
            forma h w (strato t)"
  proof
    fix t assume t: "t \<in> set rest"
    with valid ds obtain f where f: "files fs (?pth t) = Some f" "band1 f = Some (strato t)"
        "forma h w (strato t)" by auto
    have "t \<noteq> d0" using t d0 by auto
    moreover have "t \<in> set ?ds" "d0 \<in> set ?ds" using t ds by simp_all
    ultimately have "?pth t \<noteq> ?pth d0" using nomi by (auto simp: inj_on_def)
    then show "\<exists>f. files ?fs' (?pth t) = Some f \<and> band1 f = Some (strato t) \<and> forma h w (strato t)"
      using f by (simp add: files_stamp_crs)
  qed
  let ?b = "fst (somma_file piu ?fs' (map ?pth rest) (strato d0, 1))"
  from somma_file_celle [OF f0(3) hw(1) rest, of piu 1]
  have b: "forma h w ?b"
    "\<forall>i<h. \<forall>j<w. ?b ! i ! j = somma_celle piu (strato d0 ! i ! j) (map (\<lambda>t. strato t ! i ! j) rest)"
    by simp_all
  have "length ?b = h" using b(1) by (simp add: forma_def)
  moreover have "grid_width ?b = w" using b(1) hw(1) by (rule forma_width)
  ultimately have size: "grid_size ?b \<noteq> 0"
    using hw by (simp add: grid_size_def)
  have run: "calcolo_cumulata cfg cal piu riscritto post fs now D =
      \<lparr>ritorno = Inr (True, []), data_sommata = Some ?b, archivio_dopo = ?fs'\<rparr>"
    using size post by (simp add: calcolo_cumulata_def anchor racc' f0 u0 Let_def)
  have esatte: "?b ! i ! j = (\<Sum>t\<leftarrow>?ds. strato t ! i ! j)"
    if "i < h" "j < w"
       "somme_esatte piu (strato d0 ! i ! j) (map (\<lambda>t. strato t ! i ! j) rest)" for i j
    using b(2) that somme_esatte_sum_list [OF that(3)] by (simp add: ds)
  show ?thesis using run b esatte by (simp add: ds)
qed

lemma cumulata_es:
  "calcolo_cumulata cfg_esempio gregoriano piu_int16 riscritto_esempio post_ok
     (archivio_esempio (file_esempio [[x, y]]) (file_esempio [[u, v]])) ore_0620 2
   = \<lparr>ritorno = Inr (True, []), data_sommata = Some [[piu_int16 x u, piu_int16 y v]],
      archivio_dopo = archivio_esempio
        ((riscritto_esempio (file_esempio [[x, y]]))\<lparr>crs := Some 4326\<rparr>)
        (file_esempio [[u, v]])\<rparr>"
  by (simp add: calcolo_cumulata_def anchor_es date_es path_es classifica_file_def
        verifica_file_tiff_def files_es stamp_es file_esempio_sel grid_add_def broadcast_dim_def
        grid_width_def grid_size_def grid_at_def post_ok_def Let_def upt_conv_Cons)

lemma piu_int16_es:
  "piu_int16 1 10 = 11" "piu_int16 2 20 = 22" "piu_int16 30000 10000 = - 25536"
  by (simp_all add: piu_int16_def)

theorem calcolo_cumulata_all_valid_witness:
  "ora_ultimo_file cfg_esempio gregoriano
     (archivio_esempio (file_esempio [[1, 2]]) (file_esempio [[10, 20]])) ore_0620
     = Inr 1704088800000000 \<and>
   (1::int) \<le> 2 \<and>
   ritorno (calcolo_cumulata cfg_esempio gregoriano piu_int16 riscritto_esempio post_ok
     (archivio_esempio (file_esempio [[1, 2]]) (file_esempio [[10, 20]])) ore_0620 2)
     = Inr (True, []) \<and>
   data_sommata (calcolo_cumulata cfg_esempio gregoriano piu_int16 riscritto_esempio post_ok
     (archivio_esempio (file_esempio [[1, 2]]) (file_esempio [[10, 20]])) ore_0620 2)
     = Some [[11, 22]] \<and>
   somme_esatte piu_int16 1 [10] \<and> somme_esatte piu_int16 2 [20] \<and>
   (\<exists>b. data_sommata (calcolo_cumulata cfg_esempio gregoriano piu_int16 riscritto_esempio post_ok
           (archivio_esempio (file_esempio [[1, 2]]) (file_esempio [[10, 20]])) ore_0620 2)
           = Some b \<and>
        forma 1 2 b \<and> b ! 0 ! 0 = 1 + 10 \<and> b ! 0 ! 1 = 2 + 20)"
proof -
  let ?fs = "archivio_esempio (file_esempio [[1, 2]]) (file_esempio [[10, 20]])"
  let ?strato = "\<lambda>t::datetime. if t = 1704085200000000 then [[1, 2]] else [[10, 20::int]]"
  have valid: "\<forall>t\<in>set (lista_date 1704088800000000 2).
      \<exists>f. files ?fs (costruisci_path_file cfg_esempio gregoriano t (nome_file_ora gregoriano t))
            = Some f \<and>
          st_size f \<noteq> 0 \<and> tiff_ok f \<and> band1 f = Some (?strato t) \<and> forma 1 2 (?strato t)"
    by (simp add: date_es path_es files_es file_esempio_sel forma_def)
  have nomi: "inj_on (\<lambda>t. costruisci_path_file cfg_esempio gregoriano t (nome_file_ora gregoriano t))
                 (set (lista_date 1704088800000000 2))"
    by (simp add: date_es path_es)
  have upd: "\<forall>f. files ?fs (costruisci_path_file cfg_esempio gregoriano
                 (hd (lista_date 1704088800000000 2))
                 (nome_file_ora gregoriano (hd (lista_date 1704088800000000 2)))) = Some f
               \<longrightarrow> update_ok f"
    by (simp add: date_es path_es files_es file_esempio_sel)
  have post: "\<forall>g. post_ok g = Inr True" by (simp add: post_ok_def)
  have es: "somme_esatte piu_int16 1 [10]" "somme_esatte piu_int16 2 [20]"
    by (simp_all add: piu_int16_es)
  from calcolo_cumulata_all_valid [OF anchor_es _ valid nomi upd _ _ post,
      of piu_int16 riscritto_esempio]
  have r: "ritorno (calcolo_cumulata cfg_esempio gregoriano piu_int16 riscritto_esempio post_ok
             ?fs ore_0620 2) = Inr (True, [])"
    and "\<exists>b. data_sommata (calcolo_cumulata cfg_esempio gregoriano piu_int16 riscritto_esempio
               post_ok ?fs ore_0620 2) = Some b \<and>
             forma 1 2 b \<and>
             (\<forall>i<1. \<forall>j<2.
                b ! i ! j = somma_celle piu_int16
                    (?strato (hd (lista_date 1704088800000000 2)) ! i ! j)
                    (map (\<lambda>t. ?strato t ! i ! j) (tl (lista_date 1704088800000000 2))) \<and>
                (somme_esatte piu_int16
                    (?strato (hd (lista_date 1704088800000000 2)) ! i ! j)
                    (map (\<lambda>t. ?strato t ! i ! j) (tl (lista_date 1704088800000000 2))) \<longrightarrow>
                 b ! i ! j = (\<Sum>t\<leftarrow>lista_date 1704088800000000 2. ?strato t ! i ! j)))"
    by simp_all
  then obtain b where b: "data_sommata (calcolo_cumulata cfg_esempio gregoriano piu_int16
        riscritto_esempio post_ok ?fs ore_0620 2) = Some b"
      "forma 1 2 b"
      "\<forall>i<1. \<forall>j<2.
                (somme_esatte piu_int16
                    (?strato (hd (lista_date 1704088800000000 2)) ! i ! j)
                    (map (\<lambda>t. ?strato t ! i ! j) (tl (lista_date 1704088800000000 2))) \<longrightarrow>
                 b ! i ! j = (\<Sum>t\<leftarrow>lista_date 1704088800000000 2. ?strato t ! i ! j))"
    by blast
  from b(3) es have "b ! 0 ! 0 = 1 + 10" "b ! 0 ! 1 = 2 + 20"
    by (simp_all add: date_es)
  then show ?thesis
    using r b(1,2) anchor_es es by (simp add: cumulata_es piu_int16_es)
qed

text \<open>
  C1 as stated fails, in two ways. In the first run the two required files are present
  and valid, one layer has shape \<open>(1, 2)\<close> and the other \<open>(1, 3)\<close>; the addition raises
  inside the loop's \<open>try\<close>, the 06:00 file is skipped, and the function returns
  success with an empty problem list and a buffer that is the 05:00 layer alone. In
  the second run the two layers have the same shape and the dtype \<open>int16\<close>; the sum
  \<open>30000 + 10000\<close> wraps around, and the cell of the buffer is \<open>-25536\<close>.
\<close>

theorem calcolo_cumulata_all_valid_counterexample:
  "classifica_file (archivio_esempio (file_esempio [[1, 2]]) (file_esempio [[10, 20, 30]]))
     ''/mcm/2024/01/01/MCM_20240101050000.tif'' = Valido \<and>
   classifica_file (archivio_esempio (file_esempio [[1, 2]]) (file_esempio [[10, 20, 30]]))
     ''/mcm/2024/01/01/MCM_20240101060000.tif'' = Valido \<and>
   calcolo_cumulata cfg_esempio gregoriano piu_int16 riscritto_esempio post_ok
     (archivio_esempio (file_esempio [[1, 2]]) (file_esempio [[10, 20, 30]])) ore_0620 2
   = \<lparr>ritorno = Inr (True, []), data_sommata = Some [[1, 2]],
      archivio_dopo = archivio_esempio
        ((riscritto_esempio (file_esempio [[1, 2]]))\<lparr>crs := Some 4326\<rparr>)
        (file_esempio [[10, 20, 30]])\<rparr> \<and>
   ([[1, 2]] :: int grid) ! 0 ! 0 \<noteq> [[1, 2]] ! 0 ! 0 + [[10, 20, 30]] ! 0 ! 0 \<and>
   classifica_file (archivio_esempio (file_esempio [[30000, 2]]) (file_esempio [[10000, 20]]))
     ''/mcm/2024/01/01/MCM_20240101050000.tif'' = Valido \<and>
   classifica_file (archivio_esempio (file_esempio [[30000, 2]]) (file_esempio [[10000, 20]]))
     ''/mcm/2024/01/01/MCM_20240101060000.tif'' = Valido \<and>
   ritorno (calcolo_cumulata cfg_esempio gregoriano piu_int16 riscritto_esempio post_ok
     (archivio_esempio (file_esempio [[30000, 2]]) (file_esempio [[10000, 20]])) ore_0620 2)
   = Inr (True, []) \<and>
   data_sommata (calcolo_cumulata cfg_esempio gregoriano piu_int16 riscritto_esempio post_ok
     (archivio_esempio (file_esempio [[30000, 2]]) (file_esempio [[10000, 20]])) ore_0620 2)
   = Some [[- 25536, 22]] \<and>
   ([[- 25536, 22]] :: int grid) ! 0 ! 0 \<noteq> [[30000, 2]] ! 0 ! 0 + [[10000, 20]] ! 0 ! 0"
proof -
  have m: "calcolo_cumulata cfg_esempio gregoriano piu_int16 riscritto_esempio post_ok
     (archivio_esempio (file_esempio [[1, 2]]) (file_esempio [[10, 20, 30]])) ore_0620 2
   = \<lparr>ritorno = Inr (True, []), data_sommata = Some [[1, 2]],
      archivio_dopo = archivio_esempio
        ((riscritto_esempio (file_esempio [[1, 2]]))\<lparr>crs := Some 4326\<rparr>)
        (file_esempio [[10, 20, 30]])\<rparr>"
    by (simp add: calcolo_cumulata_def anchor_es date_es path_es classifica_file_def
          verifica_file_tiff_def files_es stamp_es file_esempio_sel grid_add_def broadcast_dim_def
          grid_width_def grid_size_def post_ok_def Let_def)
  have c: "classifica_file (archivio_esempio (file_esempio g5) (file_esempio g6))
             ''/mcm/2024/01/01/MCM_20240101050000.tif'' = Valido"
          "classifica_file (archivio_esempio (file_esempio g5) (file_esempio g6))
             ''/mcm/2024/01/01/MCM_20240101060000.tif'' = Valido" for g5 g6
    by (simp_all add: classifica_file_def verifica_file_tiff_def files_es file_esempio_sel)
  show ?thesis
    by (simp add: m c cumulata_es piu_int16_es)
qed




section \<open>Properties of \<open>calcola_cn_per_zone\<close>\<close>

lemma cache_lookup_hit:
  assumes "cache_file fs = Parsed d"
    and "\<forall>p\<in>fst ` set (mtimes d). getmtime fs p = map_of (mtimes d) p"
  shows "cache_lookup fs = Some (zone_cn d)"
  using assms by (simp add: cache_lookup_def list_all_iff)

lemma cn_loop_mtimes:
  assumes "cn_loop fs l (z0, m0, o0) = Inr (z, m, ops)"
    and "\<forall>p\<in>fst ` set m0. getmtime fs p = map_of m0 p"
  shows "\<forall>p\<in>fst ` set m. getmtime fs p = map_of m p"
  using assms
proof (induction l arbitrary: z0 m0 o0)
  case Nil
  then show ?case by simp
next
  case (Cons asc rest)
  show ?case
  proof (cases "trailing_digits (path_stem asc)")
    case None
    with Cons.prems have "cn_loop fs rest (z0, m0, o0) = Inr (z, m, ops)" by simp
    from Cons.IH [OF this Cons.prems(2)] show ?thesis .
  next
    case (Some ds)
    with Cons.prems(1) obtain band t where bt: "asc_band fs asc = Some band" "getmtime fs asc = Some t"
      and rec: "cn_loop fs rest
                  (AList.update (zone_key (int_of_digits ds)) (masked_mean band) z0,
                   AList.update asc t m0, o0 @ [asc]) = Inr (z, m, ops)"
      by (auto split: option.splits)
    have inv: "\<forall>p\<in>fst ` set (AList.update asc t m0). getmtime fs p = map_of (AList.update asc t m0) p"
      using Cons.prems(2) bt(2) by (auto simp: dom_update update_conv')
    from Cons.IH [OF rec inv] show ?thesis .
  qed
qed

text \<open>
  C6. When the cache file is readable and every recorded modification time equals the
  current one, \<open>calcola_cn_per_zone\<close> returns the cached averages and changes nothing:
  no raster is opened. And whenever a call returns, a second call on the files it
  leaves behind returns the same averages and leaves the files, with the log of opened
  rasters, as they are.
\<close>

theorem calcola_cn_per_zone_cache_hit:
  "(cache_file fs = Parsed d \<and>
      (\<forall>p\<in>fst ` set (mtimes d). getmtime fs p = map_of (mtimes d) p) \<longrightarrow>
        calcola_cn_per_zone fs = Inr (zone_cn d, fs)) \<and>
   (calcola_cn_per_zone fs1 = Inr (z, fs2) \<longrightarrow>
        calcola_cn_per_zone fs2 = Inr (z, fs2) \<and>
        glob_asc fs2 = glob_asc fs1 \<and> getmtime fs2 = getmtime fs1 \<and> asc_band fs2 = asc_band fs1)"
proof (intro conjI impI)
  assume "cache_file fs = Parsed d \<and>
      (\<forall>p\<in>fst ` set (mtimes d). getmtime fs p = map_of (mtimes d) p)"
  then show "calcola_cn_per_zone fs = Inr (zone_cn d, fs)"
    by (simp add: calcola_cn_per_zone_def cache_lookup_hit)
next
  assume run: "calcola_cn_per_zone fs1 = Inr (z, fs2)"
  show "calcola_cn_per_zone fs2 = Inr (z, fs2)"
  proof (cases "cache_lookup fs1")
    case (Some cached)
    with run show ?thesis by (simp add: calcola_cn_per_zone_def)
  next
    case None
    with run obtain mts ops where loop: "cn_loop fs1 (glob_asc fs1) ([], [], opened fs1) = Inr (z, mts, ops)"
      and fs2: "fs2 = fs1\<lparr>cache_file := Parsed \<lparr>zone_cn = z, mtimes = mts\<rparr>, opened := ops\<rparr>"
      by (auto simp: calcola_cn_per_zone_def split: sum.splits)
    from cn_loop_mtimes [OF loop] have "\<forall>p\<in>fst ` set mts. getmtime fs1 p = map_of mts p" by simp
    then have "cache_lookup fs2 = Some z"
      by (intro cache_lookup_hit [where d = "\<lparr>zone_cn = z, mtimes = mts\<rparr>", simplified])
         (simp_all add: fs2)
    then show ?thesis by (simp add: calcola_cn_per_zone_def)
  qed
  show "glob_asc fs2 = glob_asc fs1" "getmtime fs2 = getmtime fs1" "asc_band fs2 = asc_band fs1"
    using run by (auto simp: calcola_cn_per_zone_def split: option.splits sum.splits)
qed

lemma cn_keys_es:
  "trailing_digits (path_stem ''/cn/CN_IM_01.ASC'') = Some ''01''"
  "trailing_digits (path_stem ''/cn/CN_IM_02.ASC'') = Some ''02''"
  "trailing_digits (path_stem ''/cn/CN_IM_03.ASC'') = Some ''03''"
  "zone_key (int_of_digits ''01'') = ''IM-01''"
  "zone_key (int_of_digits ''02'') = ''IM-02''"
  "zone_key (int_of_digits ''03'') = ''IM-03''"
  by (simp_all add: trailing_digits_def path_stem_def path_name_def is_digit_def Let_def
        zone_key_def int_of_digits_def digit_val_def fmt02d_def digit_char_def)

lemma cn_primo_es: "calcola_cn_per_zone cn_esempio = Inr ([(''IM-01'', Fin 75), (''IM-02'', Fin 60)], cn_dopo)"
  by (simp add: calcola_cn_per_zone_def cache_lookup_def cn_esempio_def cn_dopo_def cn_keys_es
        masked_mean_def List.map_filter_def)

theorem calcola_cn_per_zone_cache_hit_witness:
  "(cache_file cn_dopo = Parsed \<lparr>zone_cn = [(''IM-01'', Fin 75), (''IM-02'', Fin 60)],
        mtimes = [(''/cn/CN_IM_01.ASC'', 100), (''/cn/CN_IM_02.ASC'', 200)]\<rparr> \<and>
    getmtime cn_dopo ''/cn/CN_IM_01.ASC'' = Some 100 \<and>
    getmtime cn_dopo ''/cn/CN_IM_02.ASC'' = Some 200) \<and>
   calcola_cn_per_zone cn_esempio = Inr ([(''IM-01'', Fin 75), (''IM-02'', Fin 60)], cn_dopo) \<and>
   calcola_cn_per_zone cn_dopo = Inr ([(''IM-01'', Fin 75), (''IM-02'', Fin 60)], cn_dopo) \<and>
   opened cn_dopo = [''/cn/CN_IM_01.ASC'', ''/cn/CN_IM_02.ASC'']"
proof -
  have c: "cache_file cn_dopo = Parsed \<lparr>zone_cn = [(''IM-01'', Fin 75), (''IM-02'', Fin 60)],
        mtimes = [(''/cn/CN_IM_01.ASC'', 100), (''/cn/CN_IM_02.ASC'', 200)]\<rparr>"
       "getmtime cn_dopo ''/cn/CN_IM_01.ASC'' = Some 100"
       "getmtime cn_dopo ''/cn/CN_IM_02.ASC'' = Some 200"
       "opened cn_dopo = [''/cn/CN_IM_01.ASC'', ''/cn/CN_IM_02.ASC'']"
    by (simp_all add: cn_dopo_def cn_esempio_def)
  have "calcola_cn_per_zone cn_dopo = Inr ([(''IM-01'', Fin 75), (''IM-02'', Fin 60)], cn_dopo)"
    using calcola_cn_per_zone_cache_hit
      [of cn_dopo "\<lparr>zone_cn = [(''IM-01'', Fin 75), (''IM-02'', Fin 60)],
          mtimes = [(''/cn/CN_IM_01.ASC'', 100), (''/cn/CN_IM_02.ASC'', 200)]\<rparr>"
          cn_esempio "[(''IM-01'', Fin 75), (''IM-02'', Fin 60)]" cn_dopo]
      c cn_primo_es
    by simp
  then show ?thesis using c cn_primo_es by simp
qed

text \<open>
  C9. The validity of the cache is decided over the recorded paths only. When the
  cache is readable and every recorded modification time matches, a raster \<open>q\<close> that
  is not among the recorded paths and has since been added to the directory changes
  nothing: the cached mapping is returned as it is, no raster is opened, and the zone
  of \<open>q\<close>, unless the cache already had it, is absent from the result.
\<close>

theorem calcola_cn_per_zone_ignores_new_raster:
  assumes "cache_file fs = Parsed d"
    and "\<forall>p\<in>fst ` set (mtimes d). getmtime fs p = map_of (mtimes d) p"
    and "q \<notin> fst ` set (mtimes d)"
  shows "calcola_cn_per_zone
           (fs\<lparr>glob_asc := glob_asc fs @ [q], getmtime := (getmtime fs)(q \<mapsto> t),
               asc_band := (asc_band fs)(q \<mapsto> band)\<rparr>)
         = Inr (zone_cn d,
                fs\<lparr>glob_asc := glob_asc fs @ [q], getmtime := (getmtime fs)(q \<mapsto> t),
                    asc_band := (asc_band fs)(q \<mapsto> band)\<rparr>)
         \<and> (\<forall>ds. trailing_digits (path_stem q) = Some ds \<and>
                  zone_key (int_of_digits ds) \<notin> fst ` set (zone_cn d) \<longrightarrow>
                  map_of (zone_cn d) (zone_key (int_of_digits ds)) = None)"
proof -
  let ?fs = "fs\<lparr>glob_asc := glob_asc fs @ [q], getmtime := (getmtime fs)(q \<mapsto> t),
               asc_band := (asc_band fs)(q \<mapsto> band)\<rparr>"
  have "\<forall>p\<in>fst ` set (mtimes d). getmtime ?fs p = map_of (mtimes d) p"
    using assms(2,3) by auto
  moreover have "cache_file ?fs = Parsed d" using assms(1) by simp
  ultimately have "cache_lookup ?fs = Some (zone_cn d)" by (rule cache_lookup_hit [rotated])
  then show ?thesis by (simp add: calcola_cn_per_zone_def map_of_eq_None_iff)
qed

theorem calcola_cn_per_zone_ignores_new_raster_witness:
  "''/cn/CN_IM_03.ASC'' \<notin> fst ` set [(''/cn/CN_IM_01.ASC'', 100::real), (''/cn/CN_IM_02.ASC'', 200)] \<and>
   calcola_cn_per_zone
     (cn_dopo\<lparr>glob_asc := glob_asc cn_dopo @ [''/cn/CN_IM_03.ASC''],
              getmtime := (getmtime cn_dopo)(''/cn/CN_IM_03.ASC'' \<mapsto> 300),
              asc_band := (asc_band cn_dopo)(''/cn/CN_IM_03.ASC'' \<mapsto> [Some 90])\<rparr>)
   = Inr ([(''IM-01'', Fin 75), (''IM-02'', Fin 60)],
          cn_dopo\<lparr>glob_asc := glob_asc cn_dopo @ [''/cn/CN_IM_03.ASC''],
              getmtime := (getmtime cn_dopo)(''/cn/CN_IM_03.ASC'' \<mapsto> 300),
              asc_band := (asc_band cn_dopo)(''/cn/CN_IM_03.ASC'' \<mapsto> [Some 90])\<rparr>) \<and>
   trailing_digits (path_stem ''/cn/CN_IM_03.ASC'') = Some ''03'' \<and>
   map_of [(''IM-01'', Fin 75), (''IM-02'', Fin 60)] (zone_key (int_of_digits ''03'')) = None"
proof -
  let ?d = "\<lparr>zone_cn = [(''IM-01'', Fin 75), (''IM-02'', Fin 60)],
        mtimes = [(''/cn/CN_IM_01.ASC'', 100::real), (''/cn/CN_IM_02.ASC'', 200)]\<rparr>"
  have c: "cache_file cn_dopo = Parsed ?d"
    by (simp add: cn_dopo_def cn_esempio_def)
  have m: "\<forall>p\<in>fst ` set (mtimes ?d). getmtime cn_dopo p = map_of (mtimes ?d) p"
    by (simp add: cn_dopo_def cn_esempio_def)
  have q: "''/cn/CN_IM_03.ASC'' \<notin> fst ` set (mtimes ?d)" by simp
  from calcola_cn_per_zone_ignores_new_raster [OF c m q, where t = 300 and band = "[Some 90]"]
  show ?thesis by (simp add: cn_keys_es)
qed

section \<open>Properties of \<open>process_sheet\<close>\<close>

lemma to_numpy_float_length: "to_numpy_float pf cs = Inr vs \<Longrightarrow> length vs = length cs"
  by (induction cs arbitrary: vs) (auto split: option.splits sum.splits cell.splits)

lemma peq0_row_length: "peq0_row L cn p5 = Inr vals \<Longrightarrow> length vals = length p5"
  by (auto simp: peq0_row_def split: sum.splits)

lemma process_row_frame:
  assumes "process_row pf L zcn r = Inr r'"
  shows "fst r' = fst r \<and> length (snd r') = length (snd r) \<and>
         (non_convertita pf zcn r \<longrightarrow> r' = r)"
proof (cases "normalizza_zona pf (fst r)")
  case None
  with assms show ?thesis by (simp add: process_row_def non_convertita_def)
next
  case (Some key)
  show ?thesis
  proof (cases "map_of zcn key")
    case None
    with Some assms show ?thesis by (simp add: process_row_def non_convertita_def)
  next
    case (Some cn)
    with \<open>normalizza_zona pf (fst r) = Some key\<close> assms
    obtain p5 vals where p5: "to_numpy_float pf (snd r) = Inr p5"
      and vals: "peq0_row L cn p5 = Inr vals" and r': "r' = (fst r, vals)"
      by (auto simp: process_row_def split: sum.splits)
    have "length vals = length (snd r)"
      using to_numpy_float_length [OF p5] peq0_row_length [OF vals] by simp
    then show ?thesis
      using r' Some \<open>normalizza_zona pf (fst r) = Some key\<close>
      by (simp add: non_convertita_def)
  qed
qed

lemma process_row_non_convertita:
  "non_convertita pf zcn r \<Longrightarrow> process_row pf L zcn r = Inr r"
  by (auto simp: process_row_def non_convertita_def split: option.splits)

lemma process_sheet_rows:
  "process_sheet pf L zcn df = Inr out \<Longrightarrow>
   length out = length df \<and>
   (\<forall>i<length df. fst (out ! i) = fst (df ! i) \<and>
        length (snd (out ! i)) = length (snd (df ! i)) \<and>
        (non_convertita pf zcn (df ! i) \<longrightarrow> out ! i = df ! i))"
proof (induction df arbitrary: out)
  case Nil
  then show ?case by simp
next
  case (Cons r rs)
  from Cons.prems obtain r' rs' where r': "process_row pf L zcn r = Inr r'"
    and rs': "process_sheet pf L zcn rs = Inr rs'" and out: "out = r' # rs'"
    by (auto split: sum.splits)
  from Cons.IH [OF rs'] process_row_frame [OF r'] show ?case
    by (auto simp: out nth_Cons split: nat.splits)
qed

lemma process_sheet_all_non_convertite:
  "\<forall>r\<in>set df. non_convertita pf zcn r \<Longrightarrow> process_sheet pf L zcn df = Inr df"
  by (induction df) (simp_all add: process_row_non_convertita)

text \<open>
  C10. Whenever \<open>process_sheet\<close> returns a sheet, it has the rows of the input in the
  same order, each with its zone cell and its number of value cells, and every row
  whose zone does not normalize or has no curve number is the input row itself, cell
  for cell. Such rows alone never make the function raise.
\<close>

theorem process_sheet_frame:
  "(process_sheet pf L zcn df = Inr out \<longrightarrow>
      length out = length df \<and>
      (\<forall>i<length df. fst (out ! i) = fst (df ! i) \<and>
           length (snd (out ! i)) = length (snd (df ! i)) \<and>
           (non_convertita pf zcn (df ! i) \<longrightarrow> out ! i = df ! i))) \<and>
   ((\<forall>r\<in>set df'. non_convertita pf zcn r) \<longrightarrow> process_sheet pf L zcn df' = Inr df')"
  using process_sheet_rows process_sheet_all_non_convertite by blast

lemma sqrt_16129: "sqrt 16129 = 127"
  by (rule real_sqrt_unique) simp_all

lemma rint_12700: "rint 12700 = 12700"
  by (simp add: rint_def Let_def)

lemma np_round_127: "np_round 2 (Fin 127) = Fin 127"
proof -
  have "rint (127 * 10 ^ 2) = 12700" using rint_12700 by simp
  then show ?thesis by (simp only: np_round.simps) simp
qed

lemma np_round_381: "np_round 2 (Fin 381) = Fin 381"
proof -
  have "rint 38100 = 38100" by (simp add: rint_def Let_def)
  then have "rint (381 * 10 ^ 2) = 38100" by simp
  then show ?thesis by (simp only: np_round.simps) simp
qed

lemma normalizza_es:
  "normalizza_zona nessun_float (CStr ''IM-01'') = Some ''IM-01''"
  "normalizza_zona nessun_float (CStr ''zona'') = None"
  "normalizza_zona nessun_float (CFloat (Fin 7)) = Some ''IM-07''"
proof -
  have m: "match_IM ''ZONA'' = False" "match_IM_dash ''ZONA'' = False"
    "match_IM ''IM-01'' = False" "match_IM_dash ''IM-01'' = True"
    by (simp_all add: match_IM_def match_IM_dash_def is_digit_def)
  have u: "py_upper (py_strip ''zona'') = ''ZONA''" "py_upper (py_strip ''IM-01'') = ''IM-01''"
    by (simp_all add: py_strip_def is_space_def py_upper_def)
  show "normalizza_zona nessun_float (CStr ''IM-01'') = Some ''IM-01''"
    by (simp add: nessun_float_def normalizza_str_def u m zone_key_def fmt02d_def digit_char_def
          int_of_digits_def digit_val_def)
  show "normalizza_zona nessun_float (CStr ''zona'') = None"
    by (simp add: nessun_float_def normalizza_str_def u m)
  show "normalizza_zona nessun_float (CFloat (Fin 7)) = Some ''IM-07''"
    by (simp add: numeric_key_def zone_key_def fmt02d_def digit_char_def)
qed

lemma foglio_es:
  "process_sheet nessun_float (Fin 0) [(''IM-01'', Fin 50)] foglio_esempio =
     Inr [(CStr ''IM-01'', [CFloat (Fin 127), CFloat (Fin 381)]),
          (CStr ''zona'', [CFloat (Fin 5), CStr ''n/a'']),
          (CFloat (Fin 7), [CFloat (Fin 3), CFloat (Fin 4)])]"
proof -
  have c: "calcola_peq0 (Fin 0) (Fin (381 / 2)) (Fin 50) None = Inr (Fin 127)"
    "calcola_peq0 (Fin 0) (Fin (1905 / 2)) (Fin 50) None = Inr (Fin 381)"
    by (simp_all add: calcola_peq0_def peq0_s_def sqrt_term_def np_sub_def sqrt_64516
          sqrt_258064)
  note r = np_round_127 np_round_381
  have s: "peq0_s (Fin 50) = Inr (Fin 254)"
    by (simp add: peq0_s_def np_sub_def)
  show ?thesis
    by (simp add: foglio_esempio_def process_row_def normalizza_es peq0_row_def c r s
          del: normalizza_zona.simps np_round.simps)
qed

theorem process_sheet_frame_witness:
  "process_sheet nessun_float (Fin 0) [(''IM-01'', Fin 50)] foglio_esempio =
     Inr [(CStr ''IM-01'', [CFloat (Fin 127), CFloat (Fin 381)]),
          (CStr ''zona'', [CFloat (Fin 5), CStr ''n/a'']),
          (CFloat (Fin 7), [CFloat (Fin 3), CFloat (Fin 4)])] \<and>
   (1::nat) < length foglio_esempio \<and>
   non_convertita nessun_float [(''IM-01'', Fin 50)] (foglio_esempio ! 1) \<and>
   [(CStr ''IM-01'', [CFloat (Fin 127), CFloat (Fin 381)]),
    (CStr ''zona'', [CFloat (Fin 5), CStr ''n/a'']),
    (CFloat (Fin 7), [CFloat (Fin 3), CFloat (Fin 4)])] ! 1 = foglio_esempio ! 1 \<and>
   non_convertita nessun_float [(''IM-01'', Fin 50)] (foglio_esempio ! 2) \<and>
   process_sheet nessun_float (Fin 0) [(''IM-01'', Fin 50)] (tl foglio_esempio)
     = Inr (tl foglio_esempio)"
proof -
  have n: "non_convertita nessun_float [(''IM-01'', Fin 50)] (foglio_esempio ! 1)"
    "\<forall>r\<in>set (tl foglio_esempio). non_convertita nessun_float [(''IM-01'', Fin 50)] r"
    "non_convertita nessun_float [(''IM-01'', Fin 50)] (foglio_esempio ! 2)"
    by (simp_all add: foglio_esempio_def non_convertita_def normalizza_es
          del: normalizza_zona.simps)
  have l: "(1::nat) < length foglio_esempio" by (simp add: foglio_esempio_def)
  from process_sheet_frame [of nessun_float "Fin 0" "[(''IM-01'', Fin 50)]" foglio_esempio
      "[(CStr ''IM-01'', [CFloat (Fin 127), CFloat (Fin 381)]),
        (CStr ''zona'', [CFloat (Fin 5), CStr ''n/a'']),
        (CFloat (Fin 7), [CFloat (Fin 3), CFloat (Fin 4)])]" "tl foglio_esempio"]
    foglio_es n l
  show ?thesis by (simp add: foglio_esempio_def)
qed

section \<open>Properties of \<open>calcolo_percentili\<close>\<close>

lemma rint_of_int: "rint (of_int n) = n"
  by (simp add: rint_def Let_def)

lemma np_round_of_int: "np_round d (Fin (of_int n)) = Fin (of_int n)"
proof -
  have "of_int n * (10::real) ^ d = of_int (n * 10 ^ d)" by simp
  then have "rint (of_int n * 10 ^ d) = n * 10 ^ d" by (simp only: rint_of_int)
  then show ?thesis by simp
qed

lemma np_round_position: "np_round 1 (np_add (Fin (real i)) (Fin 1)) = Fin (real i + 1)"
  using np_round_of_int [of 1 "int i + 1"] by simp

lemma righe_excel_IM:
  "righe_excel xs = Inr rs \<Longrightarrow>
   length rs = length xs \<and>
   (\<forall>i<length xs. \<exists>v. fst (xs ! i) = ANum v \<and> IM (rs ! i) = np_round 1 (np_add v (Fin 1)))"
proof (induction xs arbitrary: rs rule: righe_excel.induct)
  case 1
  then show ?case by simp
next
  case (2 v ps rest)
  from "2.prems" obtain rs' where rs': "righe_excel rest = Inr rs'"
    and rs: "rs = \<lparr>IM = np_round 1 (np_add v (Fin 1)),
                     valori = map (\<lambda>(p, x). (p, np_round 1 x)) ps\<rparr> # rs'"
    by (auto split: sum.splits)
  from "2.IH" [OF rs'] show ?case
    by (auto simp: rs nth_Cons split: nat.splits)
next
  case (3 s ps rest)
  then show ?case by simp
qed

text \<open>
  C7, as the code has it. In every table that \<open>calcolo_percentili\<close> produces, the rows
  follow the zones of the layer in order, and the identifier of a row is the zone's
  0-based position plus one when the layer has no field \<open>id\<close>, and the value of that
  field plus one (rounded to one decimal) when it has one.
\<close>

theorem calcolo_percentili_identifiers:
  assumes "calcolo_percentili cfg inp = Excel righe"
  shows "\<exists>zone. gdf inp = Some zone \<and> length righe = length zone \<and>
           (\<forall>i<length zone.
              (attr_id (zone ! i) = None \<longrightarrow> IM (righe ! i) = Fin (real i + 1)) \<and>
              (\<forall>v. attr_id (zone ! i) = Some (ANum v) \<longrightarrow>
                     IM (righe ! i) = np_round 1 (np_add v (Fin 1))) \<and>
              (\<forall>s. attr_id (zone ! i) \<noteq> Some (AStr s)))"
proof -
  from assms obtain zone where zone: "gdf inp = Some zone"
    and rows: "righe_excel (map (\<lambda>(idx, z). (id_zona idx z, percentili_zona cfg z))
                   (zip [0..<length zone] zone)) = Inr righe"
    by (auto simp: calcolo_percentili_def Let_def split: if_splits option.splits sum.splits)
  let ?xs = "map (\<lambda>(idx, z). (id_zona idx z, percentili_zona cfg z)) (zip [0..<length zone] zone)"
  from righe_excel_IM [OF rows]
  have len: "length righe = length zone"
    and im: "\<forall>i<length zone. \<exists>v. fst (?xs ! i) = ANum v \<and>
               IM (righe ! i) = np_round 1 (np_add v (Fin 1))"
    by simp_all
  have "\<forall>i<length zone.
              (attr_id (zone ! i) = None \<longrightarrow> IM (righe ! i) = Fin (real i + 1)) \<and>
              (\<forall>v. attr_id (zone ! i) = Some (ANum v) \<longrightarrow>
                     IM (righe ! i) = np_round 1 (np_add v (Fin 1))) \<and>
              (\<forall>s. attr_id (zone ! i) \<noteq> Some (AStr s))"
  proof (intro allI impI)
    fix i assume i: "i < length zone"
    with im obtain v where v: "fst (?xs ! i) = ANum v"
      "IM (righe ! i) = np_round 1 (np_add v (Fin 1))" by blast
    have "fst (?xs ! i) = id_zona i (zone ! i)" using i by simp
    with v(1) have id: "id_zona i (zone ! i) = ANum v" by simp
    show "(attr_id (zone ! i) = None \<longrightarrow> IM (righe ! i) = Fin (real i + 1)) \<and>
              (\<forall>v. attr_id (zone ! i) = Some (ANum v) \<longrightarrow>
                     IM (righe ! i) = np_round 1 (np_add v (Fin 1))) \<and>
              (\<forall>s. attr_id (zone ! i) \<noteq> Some (AStr s))"
      using id v(2) np_round_position [of i]
      by (auto simp: id_zona_def split: option.splits)
  qed
  then show ?thesis using zone len by blast
qed

lemma colonna_IM_senza_id:
  "colonna_IM (calcolo_percentili cfg_esempio (input_esempio zone_senza_id)) = Some [Fin 1, Fin 2]"
proof -
  have r: "np_round (Suc 0) (np_add (Fin 0) (Fin 1)) = Fin 1"
    "np_round (Suc 0) (np_add (Fin 1) (Fin 1)) = Fin 2"
    using np_round_position [of 0] np_round_position [of 1] by simp_all
  show ?thesis
    by (simp add: colonna_IM_def calcolo_percentili_def input_esempio_def zone_senza_id_def
          id_zona_def upt_conv_Cons r Let_def del: np_round.simps np_add.simps)
qed

theorem calcolo_percentili_identifiers_witness:
  "\<exists>righe. calcolo_percentili cfg_esempio (input_esempio zone_senza_id) = Excel righe \<and>
     gdf (input_esempio zone_senza_id) = Some zone_senza_id \<and>
     attr_id (zone_senza_id ! 1) = None \<and> IM (righe ! 1) = Fin 2"
proof -
  from colonna_IM_senza_id obtain righe
    where r: "calcolo_percentili cfg_esempio (input_esempio zone_senza_id) = Excel righe"
    by (auto simp: colonna_IM_def split: esito_percentili.splits)
  have g: "gdf (input_esempio zone_senza_id) = Some zone_senza_id"
    "attr_id (zone_senza_id ! 1) = None" "1 < length zone_senza_id"
    by (simp_all add: input_esempio_def zone_senza_id_def)
  from calcolo_percentili_identifiers [OF r] g have "IM (righe ! 1) = Fin (real 1 + 1)"
    by auto
  then show ?thesis using r g by simp
qed

text \<open>
  C7 as stated fails: for the layer whose field \<open>id\<close> holds 10 and 20 the table has
  the identifiers 11 and 21, not the positions plus one, 1 and 2.
\<close>

theorem calcolo_percentili_identifiers_counterexample:
  "colonna_IM (calcolo_percentili cfg_esempio (input_esempio zone_con_id)) = Some [Fin 11, Fin 21] \<and>
   colonna_IM (calcolo_percentili cfg_esempio (input_esempio zone_con_id)) \<noteq> Some [Fin 1, Fin 2]"
proof -
  have r: "np_round (Suc 0) (np_add (Fin 10) (Fin 1)) = Fin 11"
    "np_round (Suc 0) (np_add (Fin 20) (Fin 1)) = Fin 21"
    using np_round_position [of 10] np_round_position [of 20] by simp_all
  show ?thesis
    by (simp add: colonna_IM_def calcolo_percentili_def input_esempio_def zone_con_id_def
          id_zona_def upt_conv_Cons r Let_def del: np_round.simps np_add.simps)
qed

end
